theory Spec2Isabelle
  imports Complex_Main
begin

section \<open>Data model\<close>

text \<open>
  The retrieval pipeline of the study assistant (\<^verbatim>\<open>server/indexing.ts\<close>,
  \<^verbatim>\<open>server/retrieval.ts\<close>, \<^verbatim>\<open>server/streaming.ts\<close>, \<^verbatim>\<open>server/db.ts\<close>,
  \<^verbatim>\<open>server/routers.ts\<close>) is embedded function by function.

  Conventions. A JavaScript string is a \<^typ>\<open>string\<close>, one \<^typ>\<open>char\<close> per UTF-16 code
  unit (code units above 255 are outside the model). Token counts, budgets, lengths and
  \<^verbatim>\<open>chunk_no\<close> are natural numbers; page numbers are integers. The floating-point
  numbers of embeddings and similarities are idealised as real numbers, so rounding,
  overflow and \<^verbatim>\<open>NaN\<close> have no counterpart. A thrown exception is the left
  injection of a sum type.
\<close>

record PdfChunk =
  chunk_no :: nat
  page_start :: int
  page_end :: int
  content :: string
  tokens :: nat
  preview :: string
  embedding :: "real list option"

record RetrievedChunk = PdfChunk +
  similarity :: real

section \<open>Context compression (\<^verbatim>\<open>compressContext\<close>)\<close>

text \<open>
  The \<^verbatim>\<open>for\<close> loop of \<^verbatim>\<open>compressContext\<close> with its \<^verbatim>\<open>break\<close>: the arguments are
  the budget, the running \<^verbatim>\<open>totalTokens\<close>, the list \<^verbatim>\<open>compressed\<close> built so far and
  the chunks still to visit. \<^verbatim>\<open>Math.floor(remainingTokens * 4)\<close> is
  \<open>remainingTokens * 4\<close> on naturals; \<^verbatim>\<open>substring(0, n)\<close> is \<^const>\<open>take\<close>.
\<close>

fun compress_loop ::
  "nat \<Rightarrow> nat \<Rightarrow> RetrievedChunk list \<Rightarrow> RetrievedChunk list \<Rightarrow> RetrievedChunk list" where
  "compress_loop maxTokens totalTokens compressed [] = compressed"
| "compress_loop maxTokens totalTokens compressed (chunk # rest) =
     (if totalTokens + tokens chunk \<le> maxTokens
      then compress_loop maxTokens (totalTokens + tokens chunk) (compressed @ [chunk]) rest
      else (let remainingTokens = maxTokens - totalTokens in
            if remainingTokens > 50
            then (let charLimit = remainingTokens * 4 in
                  compressed @
                    [chunk\<lparr>content := take charLimit (content chunk) @ ''...'',
                           tokens := remainingTokens\<rparr>])
            else compressed))"

definition compressContext :: "RetrievedChunk list \<Rightarrow> nat \<Rightarrow> RetrievedChunk list" where
  "compressContext chunks maxTokens = compress_loop maxTokens 0 [] chunks"

text \<open>The summed token estimate of a chunk list.\<close>

definition sum_tokens :: "RetrievedChunk list \<Rightarrow> nat" where
  "sum_tokens cs = sum_list (map tokens cs)"

text \<open>
  A chunk with its text and token count blanked: what identifies the chunk when
  truncation may have rewritten those two fields.
\<close>

definition chunk_ident :: "RetrievedChunk \<Rightarrow> RetrievedChunk" where
  "chunk_ident c = c\<lparr>content := [], tokens := 0\<rparr>"

text \<open>A retrieved chunk with the given number, token count and text, for concrete runs.\<close>

definition sample_chunk :: "nat \<Rightarrow> nat \<Rightarrow> string \<Rightarrow> RetrievedChunk" where
  "sample_chunk no toks txt =
     \<lparr>chunk_no = no, page_start = 1, page_end = 1, content = txt, tokens = toks,
      preview = take 100 txt @ ''...'', embedding = None, similarity = 1\<rparr>"

section \<open>Prompt assembly (\<^verbatim>\<open>buildPrompt\<close>)\<close>

text \<open>\<^verbatim>\<open>Math.ceil(text.length / 4)\<close>, the token estimator used throughout.\<close>

definition estimateTokens :: "string \<Rightarrow> nat" where
  "estimateTokens text = (length text + 3) div 4"

text \<open>The decimal rendering of an integer that a template literal produces.\<close>

fun nat_str :: "nat \<Rightarrow> string" where
  "nat_str n =
     (if n < 10 then [char_of (48 + n)]
      else nat_str (n div 10) @ [char_of (48 + n mod 10)])"

declare nat_str.simps [simp del]

definition num_str :: "int \<Rightarrow> string" where
  "num_str i = (if i < 0 then CHR ''-'' # nat_str (nat (- i)) else nat_str (nat i))"

datatype role = System | User | Assistant

type_synonym prompt_message = "role \<times> string"

datatype Citation = Citation (cit_page_start: int) (cit_page_end: int) (cit_chunk_no: nat)

record pdfContext =
  fileName :: string
  moduleName :: "string option"

definition MAX_PROMPT_TOKENS :: nat where
  "MAX_PROMPT_TOKENS = 2800"

definition default_system_prompt :: string where
  "default_system_prompt =
     ''You are a study assistant. Answer concisely in British English using only the provided document context. Always cite page numbers in your answers.''"

definition contextInfo :: "pdfContext \<Rightarrow> string" where
  "contextInfo ctx =
     ''\<newline>\<newline>Document: '' @ fileName ctx @
     (case moduleName ctx of
        None \<Rightarrow> []
      | Some m \<Rightarrow> if m \<noteq> [] then '' ('' @ m @ '')'' else [])"

text \<open>
  The thread-summary step: from \<^verbatim>\<open>tokensUsed\<close> and \<^verbatim>\<open>threadSummary\<close> to their new
  values. \<^verbatim>\<open>allowedChars\<close> is computed on integers, since it is negative once the
  system prompt and the user message alone pass 2300 tokens; \<^verbatim>\<open>substring(0, n)\<close>
  treats a negative \<open>n\<close> as 0, as \<^const>\<open>nat\<close> does.
\<close>

definition add_summary :: "nat \<Rightarrow> string \<Rightarrow> nat \<times> string" where
  "add_summary tokensUsed threadSummary =
     (if threadSummary \<noteq> [] then
        (let summaryTokens = estimateTokens threadSummary in
         if tokensUsed + summaryTokens < MAX_PROMPT_TOKENS - 500
         then (tokensUsed + summaryTokens, threadSummary)
         else (let allowedChars = (int MAX_PROMPT_TOKENS - int tokensUsed - 500) * 4;
                   truncated = take (nat allowedChars) threadSummary @ ''...''
               in (tokensUsed + estimateTokens truncated, truncated)))
      else (tokensUsed, threadSummary))"

definition chunk_block :: "RetrievedChunk \<Rightarrow> string" where
  "chunk_block chunk =
     (let chunkHeader =
            ''[Pages '' @ num_str (page_start chunk) @ ''-'' @ num_str (page_end chunk)
              @ '']:\<newline>''
      in chunkHeader @ content chunk @ ''\<newline>\<newline>'')"

text \<open>
  The loop over the retrieved chunks, with its \<^verbatim>\<open>break\<close>: the state is
  \<^verbatim>\<open>tokensUsed\<close>, \<^verbatim>\<open>contextText\<close> and \<^verbatim>\<open>citations\<close>.
\<close>

fun add_chunks ::
  "nat \<Rightarrow> string \<Rightarrow> Citation list \<Rightarrow> RetrievedChunk list \<Rightarrow> nat \<times> string \<times> Citation list"
  where
  "add_chunks tokensUsed contextText citations [] = (tokensUsed, contextText, citations)"
| "add_chunks tokensUsed contextText citations (chunk # rest) =
     (let chunkText = chunk_block chunk;
          chunkTokens = estimateTokens chunkText
      in if tokensUsed + chunkTokens > MAX_PROMPT_TOKENS - 200
         then (tokensUsed, contextText, citations)
         else add_chunks (tokensUsed + chunkTokens) (contextText @ chunkText)
                (citations @ [Citation (page_start chunk) (page_end chunk) (chunk_no chunk)])
                rest)"

definition buildPrompt ::
  "string \<Rightarrow> pdfContext \<Rightarrow> string \<Rightarrow> string \<Rightarrow> RetrievedChunk list
     \<Rightarrow> prompt_message list \<times> Citation list" where
  "buildPrompt systemPrompt pdfCtx threadSummary userMessage retrievedChunks =
     (let baseSystemPrompt =
            (if systemPrompt \<noteq> [] then systemPrompt else default_system_prompt);
          fullSystemPrompt = baseSystemPrompt @ contextInfo pdfCtx;
          tokensUsed = estimateTokens fullSystemPrompt + estimateTokens userMessage;
          (tokensUsed1, threadSummary1) = add_summary tokensUsed threadSummary;
          (tokensUsed2, contextText, citations) =
             add_chunks tokensUsed1
               ''\<newline>\<newline>=== Relevant Document Sections ===\<newline>\<newline>'' []
               retrievedChunks;
          contextText1 =
            (if citations = []
             then ''\<newline>\<newline>No relevant sections found in the document.\<newline>''
             else contextText)
      in ([(System, fullSystemPrompt), (System, contextText1)]
          @ (if threadSummary1 \<noteq> []
             then [(System, ''Previous conversation:\<newline>'' @ threadSummary1)] else [])
          @ [(User, userMessage)],
          citations))"

text \<open>
  The estimated size of an assembled prompt: the estimator applied to every message that
  was emitted, summed.
\<close>

definition prompt_tokens :: "prompt_message list \<Rightarrow> nat" where
  "prompt_tokens messages = sum_list (map (\<lambda>m. estimateTokens (snd m)) messages)"

text \<open>
  The tokens of the part of a prompt that \<^verbatim>\<open>buildPrompt\<close> never shortens: the system
  prompt with the document label, and the user message.
\<close>

definition fixed_tokens :: "string \<Rightarrow> pdfContext \<Rightarrow> string \<Rightarrow> nat" where
  "fixed_tokens systemPrompt pdfCtx userMessage =
     estimateTokens ((if systemPrompt \<noteq> [] then systemPrompt else default_system_prompt)
                       @ contextInfo pdfCtx)
     + estimateTokens userMessage"

section \<open>Ranking (\<^verbatim>\<open>cosineSimilarity\<close>, \<^verbatim>\<open>calculatePriorityBoost\<close>, \<^verbatim>\<open>mmrSearch\<close>)\<close>

text \<open>
  What a function can throw: an \<^verbatim>\<open>Error\<close> or a \<^verbatim>\<open>TypeError\<close>, each with its message.
  \<open>NaN_reached\<close> is not an exception. It marks the one place where the code, run on
  real-valued inputs, computes with \<^verbatim>\<open>NaN\<close> (see \<open>avgQueryEmbed\<close> below), which the
  real numbers cannot follow.
\<close>

datatype error = Error string | TypeError string | NaN_reached

fun message :: "error \<Rightarrow> string" where
  "message (Error m) = m"
| "message (TypeError m) = m"
| "message NaN_reached = ''NaN''"

definition undefined_length :: error where
  "undefined_length = TypeError ''Cannot read properties of undefined (reading 'length')''"

text \<open>
  \<^verbatim>\<open>cosineSimilarity(vecA, vecB)\<close>. Either argument may be \<^verbatim>\<open>undefined\<close> at run time
  (the callers pass \<^verbatim>\<open>chunk.embedding!\<close>); reading \<^verbatim>\<open>.length\<close> of it throws.
\<close>

definition dot :: "real list \<Rightarrow> real list \<Rightarrow> real" where
  "dot a b = sum_list (map (\<lambda>(x, y). x * y) (zip a b))"

definition cosineSimilarity :: "real list option \<Rightarrow> real list option \<Rightarrow> error + real" where
  "cosineSimilarity vecA vecB =
     (case vecA of
        None \<Rightarrow> Inl undefined_length
      | Some a \<Rightarrow>
         (case vecB of
            None \<Rightarrow> Inl undefined_length
          | Some b \<Rightarrow>
             if length a \<noteq> length b then Inl (Error ''Vectors must have the same length'')
             else
               (let dotProduct = dot a b;
                    magnitudeA = sqrt (dot a a);
                    magnitudeB = sqrt (dot b b)
                in if magnitudeA = 0 \<or> magnitudeB = 0 then Inr 0
                   else Inr (dotProduct / (magnitudeA * magnitudeB)))))"

subsection \<open>Definition indicators\<close>

text \<open>
  The regular expressions of \<^verbatim>\<open>hasDefinitionIndicators\<close>, on code units up to 255.
  \<^verbatim>\<open>\s\<close> is tab, line feed, vertical tab, form feed, carriage return, space and
  no-break space; a word character is a letter, a digit or the underscore; the flag
  \<^verbatim>\<open>i\<close> folds the ASCII letters only.
\<close>

definition is_space :: "char \<Rightarrow> bool" where
  "is_space c = (of_char c \<in> {9, 10, 11, 12, 13, 32, 160 :: nat})"

definition is_upper :: "char \<Rightarrow> bool" where
  "is_upper c = (65 \<le> (of_char c :: nat) \<and> (of_char c :: nat) \<le> 90)"

definition is_lower :: "char \<Rightarrow> bool" where
  "is_lower c = (97 \<le> (of_char c :: nat) \<and> (of_char c :: nat) \<le> 122)"

definition is_digit :: "char \<Rightarrow> bool" where
  "is_digit c = (48 \<le> (of_char c :: nat) \<and> (of_char c :: nat) \<le> 57)"

definition is_word_char :: "char \<Rightarrow> bool" where
  "is_word_char c = (is_upper c \<or> is_lower c \<or> is_digit c \<or> c = CHR ''_'')"

definition to_upper :: "char \<Rightarrow> char" where
  "to_upper c = (if is_lower c then char_of ((of_char c :: nat) - 32) else c)"

text \<open>
  \<^verbatim>\<open>/\bLIT\b/i\<close> for a literal that starts and ends with a letter: the literal occurs
  in the text, letters compared without case, with no word character right before it and
  none right after it. \<open>prev\<close> is the character before the current position.
\<close>

fun word_match :: "string \<Rightarrow> char option \<Rightarrow> string \<Rightarrow> bool" where
  "word_match lit prev [] = False"
| "word_match lit prev (c # cs) =
     ((\<not> (case prev of None \<Rightarrow> False | Some p \<Rightarrow> is_word_char p)
       \<and> length lit \<le> length (c # cs)
       \<and> map to_upper (take (length lit) (c # cs)) = map to_upper lit
       \<and> \<not> (case drop (length lit) (c # cs) of [] \<Rightarrow> False | r # _ \<Rightarrow> is_word_char r))
      \<or> word_match lit (Some c) cs)"

text \<open>
  \<^verbatim>\<open>/^[A-Z][a-z]+:?\s/m\<close> tried at one line start: a capital, lower-case letters (at
  least one, as many as there are), an optional colon, a white-space character.
\<close>

definition term_at :: "string \<Rightarrow> bool" where
  "term_at s =
     (case s of
        [] \<Rightarrow> False
      | c # cs \<Rightarrow>
          is_upper c \<and> takeWhile is_lower cs \<noteq> [] \<and>
          (case dropWhile is_lower cs of
             [] \<Rightarrow> False
           | r # rs \<Rightarrow>
               is_space r \<or>
               (r = CHR '':'' \<and> (case rs of [] \<Rightarrow> False | r2 # _ \<Rightarrow> is_space r2))))"

text \<open>
  The line starts of the flag \<^verbatim>\<open>m\<close>: the start of the text and every position after a
  line feed or a carriage return. \<open>at_start\<close> tells whether the current position is one.
\<close>

fun term_line :: "bool \<Rightarrow> string \<Rightarrow> bool" where
  "term_line at_start [] = False"
| "term_line at_start (c # cs) =
     ((at_start \<and> term_at (c # cs))
      \<or> term_line (c = CHR 0x0A \<or> c = CHR 0x0D) cs)"

text \<open>
  The pattern list in source order. \<^verbatim>\<open>/\bdefin(e|ition|ed)\b/i\<close> is written as its
  three alternatives, each between word boundaries, which is what backtracking over the
  group amounts to.
\<close>

definition hasDefinitionIndicators :: "string \<Rightarrow> bool" where
  "hasDefinitionIndicators text =
     (word_match ''is defined as'' None text
      \<or> word_match ''refers to'' None text
      \<or> word_match ''means that'' None text
      \<or> word_match ''is a'' None text
      \<or> word_match ''is an'' None text
      \<or> (word_match ''define'' None text \<or> word_match ''definition'' None text
           \<or> word_match ''defined'' None text)
      \<or> word_match ''characterized by'' None text
      \<or> word_match ''can be described as'' None text
      \<or> word_match ''essentially'' None text
      \<or> word_match ''in other words'' None text
      \<or> term_line True text)"

definition calculatePriorityBoost :: "PdfChunk \<Rightarrow> nat \<Rightarrow> real" where
  "calculatePriorityBoost chunk totalChunks =
     (let positionBoost = 0.15 * (1 - real (chunk_no chunk) / real totalChunks);
          boost = 0 + positionBoost;
          boost1 = (if hasDefinitionIndicators (content chunk) then boost + 0.10 else boost);
          boost2 = (if tokens chunk \<ge> 50 \<and> tokens chunk \<le> 200 then boost1 + 0.05 else boost1)
      in boost2)"

subsection \<open>Maximal marginal relevance\<close>

text \<open>
  The average query embedding. The array starts as \<^verbatim>\<open>queryEmbeds[0].length\<close> zeros and
  every query embedding is added in, divided by the number of embeddings. Where an
  embedding is longer than the first one, the code adds a number to \<^verbatim>\<open>undefined\<close>:
  the array grows and the new slot holds \<^verbatim>\<open>NaN\<close>. \<open>add_embed\<close> grows the list in the
  same way, with 0 standing in the new slot, and \<open>has_NaN\<close> records that this happened.
\<close>

fun add_embed :: "real \<Rightarrow> real list \<Rightarrow> real list \<Rightarrow> real list" where
  "add_embed n avg [] = avg"
| "add_embed n [] (e # es) = 0 # add_embed n [] es"
| "add_embed n (a # avg) (e # es) = (a + e / n) # add_embed n avg es"

definition avgQueryEmbed :: "real list list \<Rightarrow> real list" where
  "avgQueryEmbed queryEmbeds =
     foldl (add_embed (real (length queryEmbeds)))
       (replicate (length (hd queryEmbeds)) 0) queryEmbeds"

definition has_NaN :: "real list list \<Rightarrow> bool" where
  "has_NaN queryEmbeds = list_ex (\<lambda>e. length (hd queryEmbeds) < length e) queryEmbeds"

text \<open>The object spread \<^verbatim>\<open>{...chunk, similarity: s}\<close>.\<close>

definition with_similarity :: "PdfChunk \<Rightarrow> real \<Rightarrow> RetrievedChunk" where
  "with_similarity chunk s =
     \<lparr>chunk_no = chunk_no chunk, page_start = page_start chunk, page_end = page_end chunk,
      content = content chunk, tokens = tokens chunk, preview = preview chunk,
      embedding = embedding chunk, similarity = s\<rparr>"

text \<open>
  The \<^verbatim>\<open>chunks.map(...)\<close> that scores every chunk, in order; the first exception ends
  it. \<^verbatim>\<open>Math.min(1.0, x)\<close> is \<^const>\<open>min\<close>.
\<close>

fun score_chunks :: "real list \<Rightarrow> nat \<Rightarrow> PdfChunk list \<Rightarrow> error + RetrievedChunk list" where
  "score_chunks avg totalChunks [] = Inr []"
| "score_chunks avg totalChunks (chunk # rest) =
     (case cosineSimilarity (Some avg) (embedding chunk) of
        Inl e \<Rightarrow> Inl e
      | Inr baseSimilarity \<Rightarrow>
          (let priorityBoost = calculatePriorityBoost chunk totalChunks;
               candidate = with_similarity chunk (min 1.0 (baseSimilarity + priorityBoost))
           in case score_chunks avg totalChunks rest of
                Inl e \<Rightarrow> Inl e
              | Inr cs \<Rightarrow> Inr (candidate # cs)))"

text \<open>
  The inner loop over \<^verbatim>\<open>selected\<close>: the greatest cosine similarity between the
  candidate and a chunk already selected, starting from 0.
\<close>

fun max_similarity :: "RetrievedChunk \<Rightarrow> real \<Rightarrow> RetrievedChunk list \<Rightarrow> error + real" where
  "max_similarity candidate maxSimilarity [] = Inr maxSimilarity"
| "max_similarity candidate maxSimilarity (selectedChunk # rest) =
     (case cosineSimilarity (embedding candidate) (embedding selectedChunk) of
        Inl e \<Rightarrow> Inl e
      | Inr sim \<Rightarrow> max_similarity candidate (max maxSimilarity sim) rest)"

text \<open>
  The loop over \<^verbatim>\<open>remaining\<close> that finds \<^verbatim>\<open>bestIndex\<close>. \<open>i\<close> is the loop index;
  \<open>bestScore\<close> is \<open>None\<close> while it is still \<^verbatim>\<open>-Infinity\<close>, which every score exceeds.
\<close>

fun best_scan ::
  "real \<Rightarrow> RetrievedChunk list \<Rightarrow> nat \<Rightarrow> real option \<Rightarrow> nat \<Rightarrow> RetrievedChunk list
     \<Rightarrow> error + nat" where
  "best_scan lambda selected i bestScore bestIndex [] = Inr bestIndex"
| "best_scan lambda selected i bestScore bestIndex (candidate # rest) =
     (let relevance = similarity candidate in
      case max_similarity candidate 0 selected of
        Inl e \<Rightarrow> Inl e
      | Inr maxSimilarity \<Rightarrow>
          (let mmrScore = lambda * relevance - (1 - lambda) * maxSimilarity in
           if (case bestScore of None \<Rightarrow> True | Some b \<Rightarrow> mmrScore > b)
           then best_scan lambda selected (i + 1) (Some mmrScore) i rest
           else best_scan lambda selected (i + 1) bestScore bestIndex rest))"

text \<open>\<^verbatim>\<open>remaining.splice(i, 1)\<close>: the list without its element at index \<open>i\<close>.\<close>

definition splice1 :: "nat \<Rightarrow> 'a list \<Rightarrow> 'a list" where
  "splice1 i xs = take i xs @ drop (Suc i) xs"

text \<open>The \<^verbatim>\<open>while\<close> loop of the selection. Every round appends one chunk to \<^verbatim>\<open>selected\<close>.\<close>

function mmr_loop ::
  "real \<Rightarrow> nat \<Rightarrow> RetrievedChunk list \<Rightarrow> RetrievedChunk list \<Rightarrow> error + RetrievedChunk list"
  where
  "mmr_loop lambda k selected remaining =
     (if length selected < k \<and> remaining \<noteq> [] then
        (if selected = [] then mmr_loop lambda k (selected @ [hd remaining]) (tl remaining)
         else
           (case best_scan lambda selected 0 None 0 remaining of
              Inl e \<Rightarrow> Inl e
            | Inr bestIndex \<Rightarrow>
                mmr_loop lambda k (selected @ [remaining ! bestIndex])
                  (splice1 bestIndex remaining)))
      else Inr selected)"
  by pat_completeness auto
termination
  by (relation "measure (\<lambda>(lambda, k, selected, remaining). k - length selected)") auto

declare mmr_loop.simps [simp del]

text \<open>
  \<^verbatim>\<open>mmrSearch\<close>. The sort is the stable sort of the language, by similarity, greatest
  first. Once every chunk has been scored without an exception, similarities that are
  \<^verbatim>\<open>NaN\<close> would make the comparator inconsistent and the order of the sort
  implementation-defined: the model stops there with \<open>NaN_reached\<close>.
\<close>

definition mmrSearch ::
  "real list list \<Rightarrow> PdfChunk list \<Rightarrow> nat \<Rightarrow> real \<Rightarrow> error + RetrievedChunk list" where
  "mmrSearch queryEmbeds chunks k lambda =
     (if chunks = [] \<or> embedding (hd chunks) = None then Inr []
      else if queryEmbeds = [] then Inl undefined_length
      else
        (let avg = avgQueryEmbed queryEmbeds;
             totalChunks = length chunks
         in case score_chunks avg totalChunks chunks of
              Inl e \<Rightarrow> Inl e
            | Inr candidates \<Rightarrow>
                if has_NaN queryEmbeds then Inl NaN_reached
                else mmr_loop lambda k []
                       (sort_key (\<lambda>c. - similarity c) candidates)))"

text \<open>
  Pure relevance ranking, as the specification words it: score every chunk, sort by
  boosted similarity, greatest first, and take the first \<open>k\<close>.
\<close>

definition relevance_ranking ::
  "real list list \<Rightarrow> PdfChunk list \<Rightarrow> nat \<Rightarrow> error + RetrievedChunk list" where
  "relevance_ranking queryEmbeds chunks k =
     (if chunks = [] then Inr []
      else if queryEmbeds = [] then Inl undefined_length
      else
        (case score_chunks (avgQueryEmbed queryEmbeds) (length chunks) chunks of
           Inl e \<Rightarrow> Inl e
         | Inr candidates \<Rightarrow>
             if has_NaN queryEmbeds then Inl NaN_reached
             else Inr (take k (sort_key (\<lambda>c. - similarity c) candidates))))"

text \<open>An indexed chunk with the given number, token count, text and embedding.\<close>

definition sample_pdf_chunk :: "nat \<Rightarrow> nat \<Rightarrow> string \<Rightarrow> real list option \<Rightarrow> PdfChunk" where
  "sample_pdf_chunk no toks txt emb =
     \<lparr>chunk_no = no, page_start = 1, page_end = 1, content = txt, tokens = toks,
      preview = take 100 txt @ ''...'', embedding = emb\<rparr>"

section \<open>Chunking (\<^verbatim>\<open>chunkText\<close>)\<close>

text \<open>
  \<^verbatim>\<open>s.split(/\s+/)\<close>: the pieces of \<open>s\<close> between maximal runs of white space. Leading
  or trailing white space gives an empty first or last piece, and the empty string gives
  one empty piece. \<open>in_ws\<close> tells whether the previous character was white space;
  \<open>cur\<close> is the piece being read.
\<close>

fun split_ws :: "bool \<Rightarrow> string \<Rightarrow> string \<Rightarrow> string list" where
  "split_ws in_ws cur [] = [cur]"
| "split_ws in_ws cur (c # cs) =
     (if is_space c then (if in_ws then split_ws True [] cs else cur # split_ws True [] cs)
      else split_ws False (cur @ [c]) cs)"

definition split_whitespace :: "string \<Rightarrow> string list" where
  "split_whitespace s = split_ws False [] s"

text \<open>\<^verbatim>\<open>xs.join(sep)\<close>.\<close>

fun join :: "string \<Rightarrow> string list \<Rightarrow> string" where
  "join sep [] = []"
| "join sep [x] = x"
| "join sep (x # y # ys) = x @ sep @ join sep (y # ys)"

text \<open>\<^verbatim>\<open>s.trim()\<close>.\<close>

definition trim :: "string \<Rightarrow> string" where
  "trim s = rev (dropWhile is_space (rev (dropWhile is_space s)))"

text \<open>
  \<^verbatim>\<open>xs.slice(-n)\<close> for \<open>n \<ge> 0\<close>: the last \<open>n\<close> elements, all of them when there are
  fewer, and, since \<^verbatim>\<open>-0\<close> is \<^verbatim>\<open>0\<close>, the whole list when \<open>n = 0\<close>.
\<close>

definition slice_last :: "nat \<Rightarrow> 'a list \<Rightarrow> 'a list" where
  "slice_last n xs = (if n = 0 then xs else drop (length xs - n) xs)"

text \<open>
  The local variables of \<^verbatim>\<open>chunkText\<close>; \<open>chunks_out\<close> is its array \<^verbatim>\<open>chunks\<close>.
\<close>

record chunker =
  chunks_out :: "PdfChunk list"
  chunkNo :: nat
  currentChunk :: string
  currentTokens :: nat
  chunkStartPage :: int
  currentPage :: int

text \<open>The chunk pushed when the current buffer is closed.\<close>

definition close_chunk :: "chunker \<Rightarrow> PdfChunk" where
  "close_chunk st =
     \<lparr>chunk_no = chunkNo st, page_start = chunkStartPage st, page_end = currentPage st,
      content = trim (currentChunk st), tokens = currentTokens st,
      preview = take 100 (trim (currentChunk st)) @ ''...'', embedding = None\<rparr>"

text \<open>The body of the loop over the words of a page.\<close>

definition chunk_word :: "nat \<Rightarrow> nat \<Rightarrow> chunker \<Rightarrow> string \<Rightarrow> chunker" where
  "chunk_word chunkSize overlap st word =
     (let wordTokens = estimateTokens (word @ '' '') in
      if currentTokens st + wordTokens > chunkSize \<and> currentChunk st \<noteq> [] then
        (let overlapWords = slice_last overlap (split_whitespace (currentChunk st));
             newChunk = join '' '' overlapWords @ '' '' @ word @ '' ''
         in st\<lparr>chunks_out := chunks_out st @ [close_chunk st],
                chunkNo := chunkNo st + 1,
                currentChunk := newChunk,
                currentTokens := estimateTokens newChunk,
                chunkStartPage := currentPage st\<rparr>)
      else st\<lparr>currentChunk := currentChunk st @ word @ '' '',
               currentTokens := currentTokens st + wordTokens\<rparr>)"

fun chunk_words :: "nat \<Rightarrow> nat \<Rightarrow> chunker \<Rightarrow> string list \<Rightarrow> chunker" where
  "chunk_words chunkSize overlap st [] = st"
| "chunk_words chunkSize overlap st (word # rest) =
     chunk_words chunkSize overlap (chunk_word chunkSize overlap st word) rest"

text \<open>The words of a page: the non-empty pieces of its text.\<close>

definition page_words :: "string \<Rightarrow> string list" where
  "page_words pageText = filter (\<lambda>w. w \<noteq> []) (split_whitespace pageText)"

fun chunk_pages :: "nat \<Rightarrow> nat \<Rightarrow> chunker \<Rightarrow> (int \<times> string) list \<Rightarrow> chunker" where
  "chunk_pages chunkSize overlap st [] = st"
| "chunk_pages chunkSize overlap st ((pageNum, pageText) # rest) =
     chunk_pages chunkSize overlap
       (chunk_words chunkSize overlap (st\<lparr>currentPage := pageNum\<rparr>) (page_words pageText))
       rest"

text \<open>
  \<^verbatim>\<open>chunkText\<close>. The page map is the list of its entries; they are visited in the
  order of their page numbers.
\<close>

definition chunkText :: "(int \<times> string) list \<Rightarrow> nat \<Rightarrow> nat \<Rightarrow> PdfChunk list" where
  "chunkText pageTexts chunkSize overlap =
     (let start = \<lparr>chunks_out = [], chunkNo = 0, currentChunk = [], currentTokens = 0,
                   chunkStartPage = 1, currentPage = 1\<rparr>;
          pages = sort_key fst pageTexts;
          st = chunk_pages chunkSize overlap start pages
      in if trim (currentChunk st) \<noteq> [] then chunks_out st @ [close_chunk st] else chunks_out st)"




section \<open>Persistent state and collaborators\<close>

datatype index_status = PENDING | INDEXING | READY | ERROR

text \<open>A row of the table \<^verbatim>\<open>pdfIndexes\<close> (without its key and its timestamps).\<close>

record PdfIndexRow =
  fileId :: nat
  status :: index_status
  chunkCount :: "nat option"
  checksum :: "string option"
  indexPath :: "string option"
  errorMessage :: "string option"
  progress :: "nat option"
  indexedAt :: "string option"

text \<open>
  The partial row handed to \<^verbatim>\<open>createOrUpdateIndex\<close>: a column that the caller leaves
  out is \<open>None\<close>.
\<close>

record InsertPdfIndex =
  new_fileId :: nat
  new_status :: "index_status option"
  new_chunkCount :: "nat option"
  new_checksum :: "string option"
  new_indexPath :: "string option"
  new_errorMessage :: "string option"
  new_progress :: "nat option"
  new_indexedAt :: "string option"

record PdfFile =
  file_id :: nat
  fileKey :: string

text \<open>A row of the table \<^verbatim>\<open>pdfMessages\<close>; \<open>createdAt\<close> is its timestamp.\<close>

record PdfMessage =
  threadId :: string
  msg_role :: role
  msg_content :: string
  tokenCount :: "nat option"
  createdAt :: nat

record database =
  pdfFiles :: "PdfFile list"
  pdfIndexes :: "PdfIndexRow list"
  pdfMessages :: "PdfMessage list"

text \<open>The index file \<^verbatim>\<open>.local-storage/indexes/<fileId>.json\<close>.\<close>

record PdfIndex =
  index_fileId :: nat
  index_checksum :: string
  index_chunks :: "PdfChunk list"
  index_indexedAt :: string
  totalChunks :: nat

text \<open>
  The state the server works on: the database handle that \<^verbatim>\<open>getDb\<close> returns
  (\<open>None\<close> when there is none) and the index files on disk, by file id.
\<close>

record system =
  db :: "database option"
  disk :: "nat \<Rightarrow> PdfIndex option"

text \<open>
  What the code calls outside the repository: the model provider, the file system, the
  PDF text extraction, the storage module, the clock, and the configuration read from
  the process environment. \<open>chat_create system user\<close> is a chat completion with these
  two messages and gives the content of the first choice (\<open>None\<close> for \<^verbatim>\<open>null\<close>);
  \<open>embeddings_create\<close> gives one vector per input.
\<close>

record env =
  openaiApiKey :: bool
  chat_create :: "string \<Rightarrow> string \<Rightarrow> error + string option"
  embeddings_create :: "string list \<Rightarrow> error + real list list"
  readFile :: "string \<Rightarrow> error + string"
  md5_hex :: "string \<Rightarrow> string"
  extractPdfText :: "string \<Rightarrow> error + (int \<times> string) list"
  getLocalFilePath :: "string \<Rightarrow> string option"
  now_iso :: string
  CHUNK_SIZE :: nat
  CHUNK_OVERLAP :: nat
  RETRIEVAL_TOP_K :: nat
  MMR_LAMBDA :: real
  MAX_CONTEXT_TOKENS :: nat

section \<open>Conversation memory (\<^verbatim>\<open>getThreadMessages\<close>, \<^verbatim>\<open>getThreadSummary\<close>)\<close>

text \<open>
  \<^verbatim>\<open>select ... where threadId = ? order by createdAt limit ?\<close>: ascending order, so
  the limit keeps the oldest rows.
\<close>

definition getThreadMessages :: "system \<Rightarrow> string \<Rightarrow> nat \<Rightarrow> PdfMessage list" where
  "getThreadMessages s tid limit =
     (case db s of
        None \<Rightarrow> []
      | Some d \<Rightarrow> take limit (sort_key createdAt (filter (\<lambda>m. threadId m = tid) (pdfMessages d))))"

fun role_str :: "role \<Rightarrow> string" where
  "role_str System = ''system''"
| "role_str User = ''user''"
| "role_str Assistant = ''assistant''"

text \<open>\<^verbatim>\<open>messages.map(m => `${m.role}: ${m.content}`).join("\n")\<close>.\<close>

definition transcript :: "PdfMessage list \<Rightarrow> string" where
  "transcript messages =
     join ''\<newline>'' (map (\<lambda>m. role_str (msg_role m) @ '': '' @ msg_content m) messages)"

definition summary_instructions :: string where
  "summary_instructions =
     ''Summarize this conversation history in 200-300 words, preserving key questions and answers. Focus on main topics and important details.''"

definition summarizeThread :: "env \<Rightarrow> PdfMessage list \<Rightarrow> string" where
  "summarizeThread e messages =
     (if messages = [] then []
      else if \<not> openaiApiKey e then
        join ''\<newline>''
          (map (\<lambda>m. role_str (msg_role m) @ '': '' @ take 100 (msg_content m) @ ''...'')
             (take 5 messages))
      else
        (let conversationText = transcript messages in
         case chat_create e summary_instructions conversationText of
           Inr reply \<Rightarrow> (case reply of None \<Rightarrow> [] | Some txt \<Rightarrow> txt)
         | Inl err \<Rightarrow> take 1000 conversationText @ ''...''))"

definition getThreadSummary :: "env \<Rightarrow> system \<Rightarrow> string \<Rightarrow> string" where
  "getThreadSummary e s tid =
     (case db s of
        None \<Rightarrow> []
      | Some d \<Rightarrow>
         (let messages = getThreadMessages s tid 100 in
          if messages = [] then []
          else
            (let totalTokens =
                   sum_list (map (\<lambda>m. case tokenCount m of None \<Rightarrow> 0 | Some n \<Rightarrow> n) messages)
             in if totalTokens < 2500 then transcript messages
                else
                  (let oldMessages = take (length messages - 10) messages;
                       recentMessages = drop (length messages - 10) messages;
                       summary = summarizeThread e oldMessages;
                       recent = transcript recentMessages
                   in ''Previous conversation summary:\<newline>'' @ summary
                      @ ''\<newline>\<newline>Recent messages:\<newline>'' @ recent))))"

text \<open>
  A thread \<open>t\<close> of \<open>n\<close> user messages of one token each, created at times
  \<open>0, 1, ...\<close>; message \<open>i\<close> has the text \<open>i\<close> in decimal.
\<close>

definition sample_thread :: "nat \<Rightarrow> PdfMessage list" where
  "sample_thread n =
     map (\<lambda>i. \<lparr>threadId = ''t'', msg_role = User, msg_content = nat_str i,
               tokenCount = Some 1, createdAt = i\<rparr>) [0..<n]"

section \<open>Index building (\<^verbatim>\<open>indexPdf\<close>, \<^verbatim>\<open>indexes.triggerIndex\<close>)\<close>

definition getPdfFileById :: "system \<Rightarrow> nat \<Rightarrow> PdfFile option" where
  "getPdfFileById s fid =
     (case db s of None \<Rightarrow> None | Some d \<Rightarrow> find (\<lambda>f. file_id f = fid) (pdfFiles d))"

definition getIndexByFileId :: "system \<Rightarrow> nat \<Rightarrow> PdfIndexRow option" where
  "getIndexByFileId s fid =
     (case db s of None \<Rightarrow> None | Some d \<Rightarrow> find (\<lambda>row. fileId row = fid) (pdfIndexes d))"

text \<open>\<^verbatim>\<open>update ... set(data)\<close> on one row: only the columns present in \<open>data\<close> change.\<close>

definition set_columns :: "InsertPdfIndex \<Rightarrow> PdfIndexRow \<Rightarrow> PdfIndexRow" where
  "set_columns data row =
     \<lparr>fileId = new_fileId data,
      status = (case new_status data of None \<Rightarrow> status row | Some v \<Rightarrow> v),
      chunkCount = (case new_chunkCount data of None \<Rightarrow> chunkCount row | Some v \<Rightarrow> Some v),
      checksum = (case new_checksum data of None \<Rightarrow> checksum row | Some v \<Rightarrow> Some v),
      indexPath = (case new_indexPath data of None \<Rightarrow> indexPath row | Some v \<Rightarrow> Some v),
      errorMessage =
        (case new_errorMessage data of None \<Rightarrow> errorMessage row | Some v \<Rightarrow> Some v),
      progress = (case new_progress data of None \<Rightarrow> progress row | Some v \<Rightarrow> Some v),
      indexedAt = (case new_indexedAt data of None \<Rightarrow> indexedAt row | Some v \<Rightarrow> Some v)\<rparr>"

text \<open>\<^verbatim>\<open>insert ... values(data)\<close>: a column left out takes the default of the schema.\<close>

definition insert_row :: "InsertPdfIndex \<Rightarrow> PdfIndexRow" where
  "insert_row data =
     \<lparr>fileId = new_fileId data,
      status = (case new_status data of None \<Rightarrow> PENDING | Some v \<Rightarrow> v),
      chunkCount = (case new_chunkCount data of None \<Rightarrow> Some 0 | Some v \<Rightarrow> Some v),
      checksum = new_checksum data,
      indexPath = new_indexPath data,
      errorMessage = new_errorMessage data,
      progress = (case new_progress data of None \<Rightarrow> Some 0 | Some v \<Rightarrow> Some v),
      indexedAt = new_indexedAt data\<rparr>"

definition createOrUpdateIndex :: "InsertPdfIndex \<Rightarrow> system \<Rightarrow> error + system" where
  "createOrUpdateIndex data s =
     (case db s of
        None \<Rightarrow> Inl (Error ''Database not available'')
      | Some d \<Rightarrow>
         (case getIndexByFileId s (new_fileId data) of
            Some existing \<Rightarrow>
              Inr (s\<lparr>db := Some (d\<lparr>pdfIndexes :=
                     map (\<lambda>row. if fileId row = new_fileId data then set_columns data row
                                else row) (pdfIndexes d)\<rparr>)\<rparr>)
          | None \<Rightarrow>
              Inr (s\<lparr>db := Some (d\<lparr>pdfIndexes := pdfIndexes d @ [insert_row data]\<rparr>)\<rparr>)))"

text \<open>A partial row that names the file and nothing else.\<close>

definition for_file :: "nat \<Rightarrow> InsertPdfIndex" where
  "for_file fid =
     \<lparr>new_fileId = fid, new_status = None, new_chunkCount = None, new_checksum = None,
      new_indexPath = None, new_errorMessage = None, new_progress = None,
      new_indexedAt = None\<rparr>"

text \<open>
  \<^verbatim>\<open>saveIndex\<close> writes the index file of the document; \<^verbatim>\<open>loadIndex\<close> reads it and
  gives \<^verbatim>\<open>null\<close> when it cannot be read. Writing is taken to succeed.
\<close>

definition saveIndex :: "env \<Rightarrow> nat \<Rightarrow> PdfChunk list \<Rightarrow> string \<Rightarrow> system \<Rightarrow> system" where
  "saveIndex e fid cs digest s =
     s\<lparr>disk := (disk s)(fid \<mapsto>
          \<lparr>index_fileId = fid, index_checksum = digest, index_chunks = cs,
           index_indexedAt = now_iso e, totalChunks = length cs\<rparr>)\<rparr>"

definition loadIndex :: "system \<Rightarrow> nat \<Rightarrow> PdfIndex option" where
  "loadIndex s fid = disk s fid"

text \<open>
  \<^verbatim>\<open>generateEmbeddings\<close>: batches of 100 chunks; the vectors of the reply are attached
  to the chunks of the batch by position.
\<close>

fun attach_embeddings :: "PdfChunk list \<Rightarrow> real list list \<Rightarrow> error + PdfChunk list" where
  "attach_embeddings [] data = Inr []"
| "attach_embeddings (c # cs) [] =
     Inl (TypeError ''Cannot read properties of undefined (reading 'embedding')'')"
| "attach_embeddings (c # cs) (v # vs) =
     (case attach_embeddings cs vs of
        Inl err \<Rightarrow> Inl err
      | Inr rest \<Rightarrow> Inr (c\<lparr>embedding := Some v\<rparr> # rest))"

function embed_batches :: "env \<Rightarrow> PdfChunk list \<Rightarrow> error + PdfChunk list" where
  "embed_batches e cs =
     (if cs = [] then Inr []
      else
        (case embeddings_create e (map content (take 100 cs)) of
           Inl err \<Rightarrow> Inl err
         | Inr data \<Rightarrow>
             (case attach_embeddings (take 100 cs) data of
                Inl err \<Rightarrow> Inl err
              | Inr batch \<Rightarrow>
                  (case embed_batches e (drop 100 cs) of
                     Inl err \<Rightarrow> Inl err
                   | Inr rest \<Rightarrow> Inr (batch @ rest)))))"
  by pat_completeness auto
termination
  by (relation "measure (\<lambda>(e, cs). length cs)") auto

declare embed_batches.simps [simp del]

definition generateEmbeddings :: "env \<Rightarrow> PdfChunk list \<Rightarrow> error + PdfChunk list" where
  "generateEmbeddings e cs =
     (if \<not> openaiApiKey e then Inl (Error ''OpenAI API key not configured'')
      else embed_batches e cs)"

record index_result =
  success :: bool
  result_chunkCount :: nat
  result_checksum :: string
  result_error :: "string option"

text \<open>The value \<^verbatim>\<open>indexPdf\<close> returns from its \<^verbatim>\<open>catch\<close> block.\<close>

definition index_failed :: "error \<Rightarrow> index_result" where
  "index_failed err =
     \<lparr>success = False, result_chunkCount = 0, result_checksum = [],
      result_error = Some (message err)\<rparr>"

text \<open>
  \<^verbatim>\<open>indexPdf\<close>. The code calls \<^verbatim>\<open>onProgress?.(p)\<close> and drops what the call returns;
  the callback that \<^verbatim>\<open>triggerIndex\<close> passes is an \<^verbatim>\<open>async\<close> function, so the call only
  starts a write to the status row, and \<^verbatim>\<open>indexPdf\<close> goes on without waiting for it.
  The model therefore gives, beside the result and the state, the arguments of the calls
  of \<^verbatim>\<open>onProgress\<close> in the order they are made; the state \<^verbatim>\<open>indexPdf\<close> itself changes
  is the index file, written by \<^verbatim>\<open>saveIndex\<close>, and it reads nothing that the callback
  writes.
\<close>

definition indexPdf ::
  "env \<Rightarrow> nat \<Rightarrow> string \<Rightarrow> system \<Rightarrow> index_result \<times> system \<times> nat list" where
  "indexPdf e fid filePath s =
     (case readFile e filePath of
        Inl err \<Rightarrow> (index_failed err, s, [])
      | Inr buffer \<Rightarrow>
         (let digest = md5_hex e buffer
          in case extractPdfText e filePath of
               Inl err \<Rightarrow> (index_failed err, s, [10])
             | Inr pageTexts \<Rightarrow>
                (let cs = chunkText pageTexts (CHUNK_SIZE e) (CHUNK_OVERLAP e)
                 in case generateEmbeddings e cs of
                      Inl err \<Rightarrow> (index_failed err, s, [10, 30, 50])
                    | Inr chunksWithEmbeddings \<Rightarrow>
                       (let s1 = saveIndex e fid chunksWithEmbeddings digest s
                        in (\<lparr>success = True, result_chunkCount = length cs,
                             result_checksum = digest, result_error = None\<rparr>,
                            s1, [10, 30, 50, 80, 100])))))"

text \<open>
  What a call of the progress callback of \<^verbatim>\<open>triggerIndex\<close> does to the status row
  once its write is carried out; a failed write is only logged.
\<close>

definition report_progress :: "nat \<Rightarrow> nat \<Rightarrow> system \<Rightarrow> system" where
  "report_progress fid p s =
     (case createOrUpdateIndex
             ((for_file fid)\<lparr>new_status := Some INDEXING, new_progress := Some p\<rparr>) s of
        Inl err \<Rightarrow> s
      | Inr s1 \<Rightarrow> s1)"

text \<open>
  The end of the background task of \<^verbatim>\<open>triggerIndex\<close>, after \<^verbatim>\<open>indexPdf\<close> has
  returned \<open>result\<close>: record \<^verbatim>\<open>READY\<close> or \<^verbatim>\<open>ERROR\<close>. When recording throws, the
  handler tries to record \<^verbatim>\<open>ERROR\<close> with the message of that exception, and only logs a
  second failure.
\<close>

definition record_outcome :: "env \<Rightarrow> nat \<Rightarrow> index_result \<Rightarrow> system \<Rightarrow> system" where
  "record_outcome e fid result s =
     (let outcome =
            (if success result
             then (for_file fid)
                    \<lparr>new_status := Some READY, new_progress := Some 100,
                     new_chunkCount := Some (result_chunkCount result),
                     new_checksum := Some (result_checksum result),
                     new_indexPath := Some (''.local-storage/indexes/'' @ nat_str fid @ ''.json''),
                     new_indexedAt := Some (now_iso e)\<rparr>
             else (for_file fid)
                    \<lparr>new_status := Some ERROR, new_errorMessage := result_error result\<rparr>)
      in case createOrUpdateIndex outcome s of
           Inr s2 \<Rightarrow> s2
         | Inl err \<Rightarrow>
            (case createOrUpdateIndex
                    ((for_file fid)\<lparr>new_status := Some ERROR,
                                     new_errorMessage := Some (message err)\<rparr>) s of
               Inr s2 \<Rightarrow> s2
             | Inl err2 \<Rightarrow> s))"

text \<open>
  The writes to the status row that a build starts: the progress reports, which nothing
  waits for, and the write of the outcome, which the task awaits as its last step.
  \<open>land_write\<close> is the effect of one of them at the moment the database carries it
  out. The row of the document exists from the awaited write at the start of
  \<^verbatim>\<open>triggerIndex\<close> on, so the \<^verbatim>\<open>select\<close> of every later \<^verbatim>\<open>createOrUpdateIndex\<close> finds
  it and the write is the single \<^verbatim>\<open>update\<close> that follows.
\<close>

datatype status_write = Progress nat | Outcome index_result

definition land_write :: "env \<Rightarrow> nat \<Rightarrow> system \<Rightarrow> status_write \<Rightarrow> system" where
  "land_write e fid s w =
     (case w of
        Progress p \<Rightarrow> report_progress fid p s
      | Outcome result \<Rightarrow> record_outcome e fid result s)"

definition land_writes :: "env \<Rightarrow> nat \<Rightarrow> status_write list \<Rightarrow> system \<Rightarrow> system" where
  "land_writes e fid ws s = foldl (land_write e fid) s ws"

text \<open>
  The background task of \<^verbatim>\<open>triggerIndex\<close>: the state \<^verbatim>\<open>indexPdf\<close> leaves, and the
  writes to the status row in the order the task starts them.
\<close>

definition run_index_task ::
  "env \<Rightarrow> nat \<Rightarrow> string \<Rightarrow> system \<Rightarrow> system \<times> status_write list" where
  "run_index_task e fid localPath s =
     (let (result, s1, calls) = indexPdf e fid localPath s
      in (s1, map Progress calls @ [Outcome result]))"

datatype trigger_reply = Started | Already_indexed

text \<open>
  \<^verbatim>\<open>indexes.triggerIndex\<close>. The mutation awaits the write of \<^verbatim>\<open>INDEXING\<close> with progress
  0 and returns as soon as the task is started. The model gives the state with that
  write and with what the task does to the index file, and the writes of the task, which
  are still to land; no other build of the document runs meanwhile.
\<close>

definition start_build ::
  "env \<Rightarrow> nat \<Rightarrow> string \<Rightarrow> system \<Rightarrow> error + trigger_reply \<times> system \<times> status_write list" where
  "start_build e fid localPath s =
     (case createOrUpdateIndex
             ((for_file fid)\<lparr>new_status := Some INDEXING, new_progress := Some 0\<rparr>) s of
        Inl err \<Rightarrow> Inl err
      | Inr s1 \<Rightarrow>
         (let (s2, started) = run_index_task e fid localPath s1
          in Inr (Started, s2, started)))"

definition triggerIndex ::
  "env \<Rightarrow> nat \<Rightarrow> system \<Rightarrow> error + trigger_reply \<times> system \<times> status_write list" where
  "triggerIndex e fid s =
     (case getPdfFileById s fid of
        None \<Rightarrow> Inl (Error ''PDF file not found'')
      | Some file \<Rightarrow>
         (case getLocalFilePath e (fileKey file) of
            None \<Rightarrow> Inl (Error ''PDF file not found on disk'')
          | Some localPath \<Rightarrow>
             (case getIndexByFileId s fid of
                None \<Rightarrow> start_build e fid localPath s
              | Some existingIndex \<Rightarrow>
                 if status existingIndex = READY then
                   (case readFile e localPath of
                      Inl err \<Rightarrow> Inl err
                    | Inr buffer \<Rightarrow>
                       if checksum existingIndex = Some (md5_hex e buffer)
                       then Inr (Already_indexed, s, [])
                       else start_build e fid localPath s)
                 else start_build e fid localPath s)))"

text \<open>
  The order in which the database carries out the writes of a build is not fixed by the
  code: a write lands after it was started, and every write is started before the last
  one, the awaited write of the outcome, can land. So the writes land in some
  rearrangement \<open>landed\<close> of the list \<open>started\<close>, and the build leaves the state
  \<open>land_writes e fid landed s\<close>.
\<close>

definition landing_order :: "status_write list \<Rightarrow> status_write list \<Rightarrow> bool" where
  "landing_order started landed =
     (length landed = length started
      \<and> list_all (\<lambda>w. count_list landed w = count_list started w) started)"

text \<open>
  The exception that ends a build of the file at \<open>path\<close>, if a step throws: reading
  the file, extracting its text, or chunking and embedding it.
\<close>

definition build_failure :: "env \<Rightarrow> string \<Rightarrow> error option" where
  "build_failure e path =
     (case readFile e path of
        Inl err \<Rightarrow> Some err
      | Inr buffer \<Rightarrow>
         (case extractPdfText e path of
            Inl err \<Rightarrow> Some err
          | Inr pageTexts \<Rightarrow>
             (case generateEmbeddings e
                     (chunkText pageTexts (CHUNK_SIZE e) (CHUNK_OVERLAP e)) of
                Inl err \<Rightarrow> Some err
              | Inr cs \<Rightarrow> None)))"

section \<open>Retrieval (\<^verbatim>\<open>expandQuery\<close>, \<^verbatim>\<open>embedQueries\<close>, \<^verbatim>\<open>retrieveContext\<close>)\<close>

text \<open>\<^verbatim>\<open>s.split("\n")\<close> for a separator of one character.\<close>

fun split_on :: "char \<Rightarrow> string \<Rightarrow> string \<Rightarrow> string list" where
  "split_on sep cur [] = [cur]"
| "split_on sep cur (c # cs) =
     (if c = sep then cur # split_on sep [] cs else split_on sep (cur @ [c]) cs)"

definition expand_instructions :: string where
  "expand_instructions =
     ''Generate 2 alternative phrasings of the user's question. Return only the alternatives, one per line.''"

definition expandQuery :: "env \<Rightarrow> string \<Rightarrow> string list" where
  "expandQuery e query =
     (if \<not> openaiApiKey e then [query]
      else
        (case chat_create e expand_instructions query of
           Inl err \<Rightarrow> [query]
         | Inr reply \<Rightarrow>
            (let alternatives =
                   (case reply of
                      None \<Rightarrow> []
                    | Some txt \<Rightarrow>
                        filter (\<lambda>x. length x > 0 \<and> length x < 500)
                          (map trim (split_on (CHR 0x0A) [] txt)))
             in [query] @ take 2 alternatives)))"

definition embedQueries :: "env \<Rightarrow> string list \<Rightarrow> error + real list list" where
  "embedQueries e queries =
     (if \<not> openaiApiKey e then Inl (Error ''OpenAI API key not configured'')
      else embeddings_create e queries)"

record retrieval_result =
  result_chunks :: "RetrievedChunk list"
  totalTokens :: nat
  retrieval_error :: "string option"

text \<open>
  \<^verbatim>\<open>retrieveContext\<close>. Every exception is caught and becomes a result with its message,
  so the function always returns; the result is \<open>None\<close> only where the ranking would
  compute with \<^verbatim>\<open>NaN\<close>, which the model does not follow.
\<close>

definition retrieveContext :: "env \<Rightarrow> system \<Rightarrow> nat \<Rightarrow> string \<Rightarrow> retrieval_result option" where
  "retrieveContext e s fid query =
     (let no_index = \<lparr>result_chunks = [], totalTokens = 0,
                       retrieval_error = Some ''No index found or index is empty''\<rparr>
      in case loadIndex s fid of
           None \<Rightarrow> Some no_index
         | Some index \<Rightarrow>
            if index_chunks index = [] then Some no_index
            else
              (let queries = expandQuery e query in
               case embedQueries e queries of
                 Inl err \<Rightarrow>
                   Some \<lparr>result_chunks = [], totalTokens = 0,
                         retrieval_error = Some (message err)\<rparr>
               | Inr queryEmbeds \<Rightarrow>
                  (case mmrSearch queryEmbeds (index_chunks index) (RETRIEVAL_TOP_K e)
                          (MMR_LAMBDA e) of
                     Inl NaN_reached \<Rightarrow> None
                   | Inl err \<Rightarrow>
                       Some \<lparr>result_chunks = [], totalTokens = 0,
                             retrieval_error = Some (message err)\<rparr>
                   | Inr retrieved \<Rightarrow>
                      (let compressed = compressContext retrieved (MAX_CONTEXT_TOKENS e);
                           total = sum_tokens compressed
                       in Some \<lparr>result_chunks = compressed, totalTokens = total,
                                retrieval_error = None\<rparr>))))"

text \<open>An environment without a model provider, in which text extraction fails.\<close>

definition sample_env :: env where
  "sample_env =
     \<lparr>openaiApiKey = False,
      chat_create = (\<lambda>a b. Inl (Error ''no provider'')),
      embeddings_create = (\<lambda>a. Inl (Error ''no provider'')),
      readFile = (\<lambda>p. Inr ''%PDF''),
      md5_hex = (\<lambda>b. ''d41d8cd98f00b204e9800998ecf8427e''),
      extractPdfText = (\<lambda>p. Inl (Error ''Invalid PDF structure'')),
      getLocalFilePath = (\<lambda>k. Some (''.local-storage/'' @ k)),
      now_iso = ''2025-01-01T00:00:00.000Z'',
      CHUNK_SIZE = 800, CHUNK_OVERLAP = 100, RETRIEVAL_TOP_K = 8, MMR_LAMBDA = 0.3,
      MAX_CONTEXT_TOKENS = 1600\<rparr>"

text \<open>A state with one uploaded file, its index \<^verbatim>\<open>READY\<close> and on disk.\<close>

definition sample_index :: PdfIndex where
  "sample_index =
     \<lparr>index_fileId = 7, index_checksum = ''0cc175b9c0f1b6a831c399e269772661'',
      index_chunks = [sample_pdf_chunk 0 1 ''x'' (Some [1])],
      index_indexedAt = ''2024-12-31T00:00:00.000Z'', totalChunks = 1\<rparr>"

definition sample_system :: system where
  "sample_system =
     \<lparr>db = Some \<lparr>pdfFiles = [\<lparr>file_id = 7, fileKey = ''notes.pdf''\<rparr>],
                 pdfIndexes =
                   [\<lparr>fileId = 7, status = READY, chunkCount = Some 1,
                     checksum = Some ''0cc175b9c0f1b6a831c399e269772661'',
                     indexPath = Some ''.local-storage/indexes/7.json'',
                     errorMessage = None, progress = Some 100,
                     indexedAt = Some ''2024-12-31T00:00:00.000Z''\<rparr>],
                 pdfMessages = []\<rparr>,
      disk = [7 \<mapsto> sample_index]\<rparr>"

text \<open>
  The same state once \<^verbatim>\<open>triggerIndex\<close> has written \<^verbatim>\<open>INDEXING\<close> with progress 0.
\<close>

definition building_system :: system where
  "building_system =
     \<lparr>db = Some \<lparr>pdfFiles = [\<lparr>file_id = 7, fileKey = ''notes.pdf''\<rparr>],
                 pdfIndexes =
                   [\<lparr>fileId = 7, status = INDEXING, chunkCount = Some 1,
                     checksum = Some ''0cc175b9c0f1b6a831c399e269772661'',
                     indexPath = Some ''.local-storage/indexes/7.json'',
                     errorMessage = None, progress = Some 0,
                     indexedAt = Some ''2024-12-31T00:00:00.000Z''\<rparr>],
                 pdfMessages = []\<rparr>,
      disk = [7 \<mapsto> sample_index]\<rparr>"

text \<open>
  An environment without \<^verbatim>\<open>OPENAI_API_KEY\<close> in which the text of the file is extracted:
  the build fails when it comes to the embeddings.
\<close>

definition keyless_env :: env where
  "keyless_env = sample_env\<lparr>extractPdfText := (\<lambda>p. Inr [(1, ''Sets are collections'')])\<rparr>"

text \<open>
  An environment with a model provider that embeds the question \<^verbatim>\<open>What is a set?\<close> and
  refuses every other request, among them the chunks of the document.
\<close>

definition limited_env :: env where
  "limited_env =
     sample_env
       \<lparr>openaiApiKey := True,
        chat_create := (\<lambda>a b. Inl (Error ''429 Rate limit reached'')),
        embeddings_create :=
          (\<lambda>texts. if texts = [''What is a set?''] then Inr [[1]]
                    else Inl (Error ''429 Rate limit reached'')),
        extractPdfText := (\<lambda>p. Inr [(1, ''Sets are collections'')])\<rparr>"

section \<open>Invariants used in the proofs\<close>









text \<open>A scored chunk carries an embedding of dimension \<open>d\<close>.\<close>

definition has_dim :: "nat \<Rightarrow> RetrievedChunk \<Rightarrow> bool" where
  "has_dim d c = (case embedding c of None \<Rightarrow> False | Some v \<Rightarrow> length v = d)"

section \<open>Properties of context compression\<close>

lemma sum_tokens_simps [simp]:
  "sum_tokens [] = 0"
  "sum_tokens (c # cs) = tokens c + sum_tokens cs"
  "sum_tokens (xs @ ys) = sum_tokens xs + sum_tokens ys"
  by (simp_all add: sum_tokens_def)

text \<open>The accumulator of the loop is only ever extended at its end.\<close>

lemma compress_loop_acc:
  "compress_loop m t acc cs = acc @ compress_loop m t [] cs"
proof (induction cs arbitrary: t acc)
  case Nil
  show ?case by simp
next
  case (Cons c cs)
  show ?case
    using Cons.IH [of "t + tokens c" "acc @ [c]"] Cons.IH [of "t + tokens c" "[c]"]
    by (simp add: Let_def)
qed

lemma compress_loop_fit:
  "t + tokens c \<le> m \<Longrightarrow>
   compress_loop m t [] (c # cs) = c # compress_loop m (t + tokens c) [] cs"
  using compress_loop_acc [of m "t + tokens c" "[c]" cs] by simp

lemma compress_loop_sum:
  "t \<le> m \<Longrightarrow> sum_tokens (compress_loop m t [] cs) + t \<le> m"
proof (induction cs arbitrary: t)
  case Nil
  then show ?case by simp
next
  case (Cons c cs)
  show ?case
  proof (cases "t + tokens c \<le> m")
    case True
    with Cons.IH [OF True] show ?thesis
      by (simp add: compress_loop_fit del: compress_loop.simps(2))
  next
    case False
    with Cons.prems show ?thesis by (simp add: Let_def)
  qed
qed

lemma compress_loop_prefix:
  "map chunk_ident (compress_loop m t [] cs) =
     take (length (compress_loop m t [] cs)) (map chunk_ident cs)"
proof (induction cs arbitrary: t)
  case Nil
  then show ?case by simp
next
  case (Cons c cs)
  show ?case
  proof (cases "t + tokens c \<le> m")
    case True
    with Cons.IH [of "t + tokens c"] show ?thesis
      by (simp add: compress_loop_fit del: compress_loop.simps(2))
  next
    case False
    then show ?thesis by (simp add: Let_def chunk_ident_def)
  qed
qed

lemma compress_loop_overflow:
  "n < length cs \<Longrightarrow> t + sum_tokens (take n cs) \<le> m \<Longrightarrow>
   m < t + sum_tokens (take (Suc n) cs) \<Longrightarrow>
   compress_loop m t [] cs =
     take n cs @
       (if m - (t + sum_tokens (take n cs)) > 50
        then [(cs ! n)\<lparr>content :=
                         take ((m - (t + sum_tokens (take n cs))) * 4) (content (cs ! n)) @ ''...'',
                       tokens := m - (t + sum_tokens (take n cs))\<rparr>]
        else [])"
proof (induction cs arbitrary: n t)
  case Nil
  then show ?case by simp
next
  case (Cons c cs)
  show ?case
  proof (cases n)
    case 0
    with Cons.prems show ?thesis by (simp add: Let_def)
  next
    case (Suc k)
    with Cons.prems have fit: "t + tokens c \<le> m" by simp
    have "compress_loop m (t + tokens c) [] cs =
      take k cs @
       (if m - (t + tokens c + sum_tokens (take k cs)) > 50
        then [(cs ! k)\<lparr>content :=
                         take ((m - (t + tokens c + sum_tokens (take k cs))) * 4)
                           (content (cs ! k)) @ ''...'',
                       tokens := m - (t + tokens c + sum_tokens (take k cs))\<rparr>]
        else [])"
      using Cons.prems Suc by (intro Cons.IH) (simp_all add: add.assoc)
    with fit Suc show ?thesis
      by (simp add: compress_loop_fit add.assoc del: compress_loop.simps(2))
  qed
qed

text \<open>When every chunk fits, nothing is changed.\<close>

lemma compressContext_all_fit:
  "sum_tokens chunks \<le> maxTokens \<Longrightarrow> compressContext chunks maxTokens = chunks"
proof -
  have "t + sum_tokens cs \<le> m \<Longrightarrow> compress_loop m t [] cs = cs" for m t cs
  proof (induction cs arbitrary: t)
    case Nil
    then show ?case by simp
  next
    case (Cons c cs)
    then have "t + tokens c \<le> m" by simp
    moreover have "compress_loop m (t + tokens c) [] cs = cs"
      using Cons by (simp add: add.assoc)
    ultimately show ?case
      by (simp add: compress_loop_fit del: compress_loop.simps(2))
  qed
  from this [of 0 chunks maxTokens] show "sum_tokens chunks \<le> maxTokens \<Longrightarrow> ?thesis"
    by (simp add: compressContext_def)
qed

text \<open>
  Claim C2. For every ranked chunk list and every budget, the token estimates of the
  chunks that \<^verbatim>\<open>compressContext\<close> returns sum to at most \<open>maxTokens\<close>, and the result
  is a prefix of the ranking: its chunks are, position by position, the first chunks of
  the input (up to the text and token count that truncation rewrites), so no chunk is
  dropped while a later-ranked one is kept.
\<close>

theorem compressContext_budget_and_prefix:
  "sum_tokens (compressContext chunks maxTokens) \<le> maxTokens \<and>
   map chunk_ident (compressContext chunks maxTokens) =
     take (length (compressContext chunks maxTokens)) (map chunk_ident chunks)"
  using compress_loop_sum [of 0 maxTokens chunks] compress_loop_prefix [of maxTokens 0 chunks]
  by (simp add: compressContext_def)

text \<open>
  Claim C8, as stated, fails: a chunk of 100 tokens against a budget of 30 overflows, the
  remaining budget of 30 tokens is not above 50, and the chunk is dropped instead of being
  truncated and appended.
\<close>

theorem compressContext_small_remainder_counterexample:
  "compressContext [sample_chunk 0 100 ''abc''] 30 = [] \<and>
   compressContext [sample_chunk 0 100 ''abc''] 30 \<noteq>
     [(sample_chunk 0 100 ''abc'')\<lparr>content := take (30 * 4) ''abc'' @ ''...'', tokens := 30\<rparr>]"
  by (simp add: compressContext_def sample_chunk_def)

text \<open>
  Claim C8, amended. Let chunk \<open>n\<close> be the first one that overflows: the chunks before it
  fit the budget together and adding chunk \<open>n\<close> exceeds it. Then the result is exactly
  the \<open>n\<close> chunks before it, unchanged and in rank order, followed, only when more than
  50 tokens of budget remain, by chunk \<open>n\<close> cut to four characters per remaining token
  with the marker \<open>...\<close> appended and its token count set to the remaining budget. When
  50 tokens or fewer remain the overflowing chunk is dropped as well. Every later-ranked
  chunk is dropped in both cases.
\<close>

theorem compressContext_first_overflow:
  assumes "n < length chunks"
    and "sum_tokens (take n chunks) \<le> maxTokens"
    and "maxTokens < sum_tokens (take (Suc n) chunks)"
  shows "compressContext chunks maxTokens =
     take n chunks @
       (if maxTokens - sum_tokens (take n chunks) > 50
        then [(chunks ! n)\<lparr>content :=
                 take ((maxTokens - sum_tokens (take n chunks)) * 4) (content (chunks ! n))
                   @ ''...'',
                 tokens := maxTokens - sum_tokens (take n chunks)\<rparr>]
        else [])"
  using compress_loop_overflow [of n chunks 0 maxTokens] assms
  by (simp add: compressContext_def)

theorem compressContext_first_overflow_witness:
  "1 < length [sample_chunk 0 40 ''first'', sample_chunk 1 100 ''second'', sample_chunk 2 5 ''x'']
   \<and> sum_tokens (take 1 [sample_chunk 0 40 ''first'', sample_chunk 1 100 ''second'',
          sample_chunk 2 5 ''x'']) \<le> 100
   \<and> 100 < sum_tokens (take (Suc 1) [sample_chunk 0 40 ''first'', sample_chunk 1 100 ''second'',
          sample_chunk 2 5 ''x''])
   \<and> compressContext [sample_chunk 0 40 ''first'', sample_chunk 1 100 ''second'',
          sample_chunk 2 5 ''x''] 100 =
       [sample_chunk 0 40 ''first'',
        (sample_chunk 1 100 ''second'')\<lparr>content := ''second...'', tokens := 60\<rparr>]"
  using compressContext_first_overflow
    [of 1 "[sample_chunk 0 40 ''first'', sample_chunk 1 100 ''second'', sample_chunk 2 5 ''x'']" 100]
  by (simp add: sample_chunk_def)

section \<open>Properties of prompt assembly\<close>

lemma estimateTokens_append:
  "estimateTokens (a @ b) \<le> estimateTokens a + estimateTokens b"
  by (simp add: estimateTokens_def)

lemma add_chunks_citations_grow:
  "length cits \<le> length (snd (snd (add_chunks u ctx cits cs)))"
proof (induction cs arbitrary: u ctx cits)
  case Nil
  show ?case by simp
next
  case (Cons c cs)
  show ?case
    using Cons.IH [of "cits @ [Citation (page_start c) (page_end c) (chunk_no c)]"
        "u + estimateTokens (chunk_block c)" "ctx @ chunk_block c"]
    by (simp add: Let_def)
qed

lemma add_chunks_bounds:
  "add_chunks u ctx cits cs = (u', ctx', cits') \<Longrightarrow>
     u \<le> u' \<and> u' \<le> max u 2600 \<and> estimateTokens ctx' + u \<le> estimateTokens ctx + u'
     \<and> (cits' = [] \<longrightarrow> u' = u)"
proof (induction cs arbitrary: u ctx cits)
  case Nil
  then show ?case by simp
next
  case (Cons c cs)
  let ?t = "estimateTokens (chunk_block c)"
  show ?case
  proof (cases "u + ?t > MAX_PROMPT_TOKENS - 200")
    case True
    with Cons.prems show ?thesis by (simp add: Let_def)
  next
    case False
    then have fit: "u + ?t \<le> 2600" by (simp add: MAX_PROMPT_TOKENS_def)
    from False Cons.prems have rec:
      "add_chunks (u + ?t) (ctx @ chunk_block c)
         (cits @ [Citation (page_start c) (page_end c) (chunk_no c)]) cs = (u', ctx', cits')"
      by (simp add: Let_def)
    have nonempty: "cits' \<noteq> []"
      using add_chunks_citations_grow
        [of "cits @ [Citation (page_start c) (page_end c) (chunk_no c)]" "u + ?t"
          "ctx @ chunk_block c" cs] rec
      by auto
    from Cons.IH [OF rec] fit nonempty estimateTokens_append [of ctx "chunk_block c"]
    show ?thesis by auto
  qed
qed

lemma add_summary_bounds:
  "add_summary u ts = (u', ts') \<Longrightarrow>
     u' \<le> max 2301 (u + 1) \<and> (ts' \<noteq> [] \<longrightarrow> u' = u + estimateTokens ts') \<and> (ts' = [] \<longrightarrow> u' = u)"
  by (auto simp: add_summary_def Let_def MAX_PROMPT_TOKENS_def estimateTokens_def
        split: if_splits)

text \<open>
  Whatever the inputs, the assembled prompt stays within 18 tokens (the two fixed headers)
  of the larger of 2600 and the tokens of the part that is never shortened, plus one
  for the ellipsis of a summary cut to nothing.
\<close>

lemma buildPrompt_bound:
  "prompt_tokens (fst (buildPrompt systemPrompt pdfCtx threadSummary userMessage retrievedChunks))
     \<le> max 2600 (fixed_tokens systemPrompt pdfCtx userMessage + 1) + 18"
proof -
  define full where
    "full = (if systemPrompt \<noteq> [] then systemPrompt else default_system_prompt) @ contextInfo pdfCtx"
  define u0 where "u0 = estimateTokens full + estimateTokens userMessage"
  obtain u1 ts1 where s: "add_summary u0 threadSummary = (u1, ts1)"
    by (cases "add_summary u0 threadSummary")
  obtain u2 ctx cits where c:
    "add_chunks u1 ''\<newline>\<newline>=== Relevant Document Sections ===\<newline>\<newline>'' []
       retrievedChunks = (u2, ctx, cits)"
    by (cases "add_chunks u1 ''\<newline>\<newline>=== Relevant Document Sections ===\<newline>\<newline>'' []
       retrievedChunks")
  define ctx1 where "ctx1 = (if cits = []
             then ''\<newline>\<newline>No relevant sections found in the document.\<newline>''
             else ctx)"
  have msgs: "fst (buildPrompt systemPrompt pdfCtx threadSummary userMessage retrievedChunks) =
      [(System, full), (System, ctx1)]
          @ (if ts1 \<noteq> []
             then [(System, ''Previous conversation:\<newline>'' @ ts1)] else [])
          @ [(User, userMessage)]"
    using s c by (simp add: buildPrompt_def Let_def full_def u0_def ctx1_def)
  from add_summary_bounds [OF s] have b1: "u1 \<le> max 2301 (u0 + 1)"
    and b1': "ts1 \<noteq> [] \<Longrightarrow> u1 = u0 + estimateTokens ts1" and b1'': "ts1 = [] \<Longrightarrow> u1 = u0"
    by auto
  from add_chunks_bounds [OF c] have b2: "u1 \<le> u2" "u2 \<le> max u1 2600"
    "estimateTokens ctx + u1 \<le> 10 + u2" "cits = [] \<Longrightarrow> u2 = u1"
    by (auto simp: estimateTokens_def)
  have ctx1: "estimateTokens ctx1 + u1 \<le> 12 + u2"
    using b2 by (auto simp: ctx1_def estimateTokens_def)
  have mem: "estimateTokens (''Previous conversation:\<newline>'' @ ts1) \<le> 6 + estimateTokens ts1"
    using estimateTokens_append [of "''Previous conversation:\<newline>''" ts1]
    by (simp add: estimateTokens_def)
  have "prompt_tokens (fst (buildPrompt systemPrompt pdfCtx threadSummary userMessage retrievedChunks))
      \<le> u2 + 18"
  proof (cases "ts1 = []")
    case True
    with msgs ctx1 b1'' show ?thesis by (simp add: prompt_tokens_def u0_def)
  next
    case False
    with msgs ctx1 b1' mem show ?thesis by (simp add: prompt_tokens_def u0_def)
  qed
  moreover have "u2 \<le> max 2600 (u0 + 1)" using b1 b2 by auto
  moreover have "u0 = fixed_tokens systemPrompt pdfCtx userMessage"
    by (simp add: u0_def full_def fixed_tokens_def)
  ultimately show ?thesis by simp
qed

text \<open>
  Claim C1: for every system prompt, document label, memory string, user message and
  chunk list, the estimated tokens of the assembled prompt, summed over the messages
  emitted, never exceed 2800. The code does not keep this: the system prompt and the user
  message are counted into \<^verbatim>\<open>tokensUsed\<close> but never checked against the ceiling, and
  a user message of 11200 characters alone takes 2800 tokens. With no custom system
  prompt, no memory and no chunks, the prompt is estimated at 2854 tokens.
\<close>

theorem buildPrompt_long_message_exceeds_ceiling:
  "prompt_tokens (fst (buildPrompt [] \<lparr>fileName = ''notes.pdf'', moduleName = None\<rparr> []
      (replicate 11200 CHR ''a'') [])) = 2854
   \<and> MAX_PROMPT_TOKENS <
       prompt_tokens (fst (buildPrompt [] \<lparr>fileName = ''notes.pdf'', moduleName = None\<rparr> []
         (replicate 11200 CHR ''a'') []))"
  by (simp add: buildPrompt_def add_summary_def prompt_tokens_def estimateTokens_def
      default_system_prompt_def contextInfo_def Let_def MAX_PROMPT_TOKENS_def)

text \<open>
  What the truncation of memory and the chunk cut-off do guarantee: whenever the part that
  is never shortened (system prompt with document label, and user message) is estimated
  at 2781 tokens or fewer, the whole prompt stays within the ceiling, for every memory
  string and every chunk list.
\<close>

lemma buildPrompt_within_ceiling_if_fixed_part_fits:
  assumes "fixed_tokens systemPrompt pdfCtx userMessage \<le> 2781"
  shows "prompt_tokens (fst (buildPrompt systemPrompt pdfCtx threadSummary userMessage
           retrievedChunks)) \<le> MAX_PROMPT_TOKENS"
  using buildPrompt_bound [of systemPrompt pdfCtx threadSummary userMessage retrievedChunks]
    assms
  by (simp add: MAX_PROMPT_TOKENS_def)

section \<open>Properties of the ranking\<close>

lemma score_chunks_missing:
  "\<exists>c\<in>set chunks. embedding c = None \<Longrightarrow>
   score_chunks avg t chunks = Inl undefined_length \<or>
   score_chunks avg t chunks = Inl (Error ''Vectors must have the same length'')"
proof (induction chunks)
  case Nil
  then show ?case by simp
next
  case (Cons c cs)
  show ?case
  proof (cases "embedding c")
    case None
    then show ?thesis by (simp add: cosineSimilarity_def)
  next
    case (Some v)
    with Cons.prems have "\<exists>c\<in>set cs. embedding c = None" by auto
    from Cons.IH [OF this] Some show ?thesis
      by (auto simp: cosineSimilarity_def Let_def split: sum.splits)
  qed
qed

text \<open>
  Claim C10. \<^verbatim>\<open>mmrSearch\<close> returns the empty list whenever the chunk list is empty or
  its first chunk has no embedding, whatever \<open>k\<close> is and whatever the later chunks
  carry. The guard looks at the first chunk only: when the first chunk has an embedding
  and some later chunk has none (and there is a query embedding), the call does not
  return but ends in an exception raised inside \<^verbatim>\<open>cosineSimilarity\<close>, the
  \<^verbatim>\<open>TypeError\<close> of reading \<^verbatim>\<open>.length\<close> of \<^verbatim>\<open>undefined\<close>, unless an earlier chunk
  already failed its length check.
\<close>

theorem mmrSearch_guard_first_chunk_only:
  "(chunks = [] \<or> embedding (hd chunks) = None \<longrightarrow> mmrSearch queryEmbeds chunks k lambda = Inr [])
   \<and> (chunks \<noteq> [] \<and> embedding (hd chunks) \<noteq> None \<and> (\<exists>c\<in>set chunks. embedding c = None)
        \<and> queryEmbeds \<noteq> [] \<longrightarrow>
      mmrSearch queryEmbeds chunks k lambda = Inl undefined_length \<or>
      mmrSearch queryEmbeds chunks k lambda = Inl (Error ''Vectors must have the same length''))"
proof (intro conjI impI)
  assume "chunks = [] \<or> embedding (hd chunks) = None"
  then show "mmrSearch queryEmbeds chunks k lambda = Inr []"
    by (auto simp: mmrSearch_def)
next
  assume a: "chunks \<noteq> [] \<and> embedding (hd chunks) \<noteq> None
    \<and> (\<exists>c\<in>set chunks. embedding c = None) \<and> queryEmbeds \<noteq> []"
  then have "score_chunks (avgQueryEmbed queryEmbeds) (length chunks) chunks = Inl undefined_length
    \<or> score_chunks (avgQueryEmbed queryEmbeds) (length chunks) chunks =
        Inl (Error ''Vectors must have the same length'')"
    using score_chunks_missing [of chunks "avgQueryEmbed queryEmbeds" "length chunks"] by blast
  then show "mmrSearch queryEmbeds chunks k lambda = Inl undefined_length \<or>
      mmrSearch queryEmbeds chunks k lambda = Inl (Error ''Vectors must have the same length'')"
    using a by (auto simp: mmrSearch_def Let_def)
qed

theorem mmrSearch_guard_first_chunk_only_witness:
  "mmrSearch [[1]]
     [sample_pdf_chunk 0 1 ''x'' None, sample_pdf_chunk 1 1 ''y'' (Some [1])] 8 0.3 = Inr []
   \<and> mmrSearch [[1]]
     [sample_pdf_chunk 0 1 ''x'' (Some [1]), sample_pdf_chunk 1 1 ''y'' None] 8 0.3
       = Inl undefined_length"
  using mmrSearch_guard_first_chunk_only
      [of "[sample_pdf_chunk 0 1 ''x'' None, sample_pdf_chunk 1 1 ''y'' (Some [1])]"
        "[[1]]" 8 "0.3"]
    mmrSearch_guard_first_chunk_only
      [of "[sample_pdf_chunk 0 1 ''x'' (Some [1]), sample_pdf_chunk 1 1 ''y'' None]"
        "[[1]]" 8 "0.3"]
  by (simp add: sample_pdf_chunk_def mmrSearch_def cosineSimilarity_def avgQueryEmbed_def
      dot_def Let_def)

lemma cosineSimilarity_dim:
  "has_dim d a \<Longrightarrow> has_dim d b \<Longrightarrow> \<exists>r. cosineSimilarity (embedding a) (embedding b) = Inr r"
  by (auto simp: has_dim_def cosineSimilarity_def Let_def split: option.splits)

lemma max_similarity_dim:
  "has_dim d c \<Longrightarrow> \<forall>s\<in>set sel. has_dim d s \<Longrightarrow> \<exists>r. max_similarity c m sel = Inr r"
proof (induction sel arbitrary: m)
  case Nil
  then show ?case by simp
next
  case (Cons s sel)
  then obtain r where "cosineSimilarity (embedding c) (embedding s) = Inr r"
    using cosineSimilarity_dim [of d c s] by auto
  with Cons show ?case by simp
qed

lemma best_scan_keep:
  "\<forall>c\<in>set rest. has_dim d c \<and> similarity c \<le> b \<Longrightarrow> \<forall>s\<in>set sel. has_dim d s \<Longrightarrow>
   best_scan 1 sel i (Some b) j rest = Inr j"
proof (induction rest arbitrary: i)
  case Nil
  then show ?case by simp
next
  case (Cons c rest)
  then obtain r where "max_similarity c 0 sel = Inr r"
    using max_similarity_dim [of d c sel 0] by auto
  with Cons show ?case by simp
qed

lemma best_scan_sorted:
  assumes "rem \<noteq> []" "\<forall>c\<in>set rem. has_dim d c" "\<forall>s\<in>set sel. has_dim d s"
    and "sorted (map (\<lambda>c. - similarity c) rem)"
  shows "best_scan 1 sel 0 None 0 rem = Inr 0"
proof -
  from assms(1) obtain c rest where rem: "rem = c # rest" by (cases rem) auto
  obtain r where r: "max_similarity c 0 sel = Inr r"
    using max_similarity_dim [of d c sel 0] assms rem by auto
  have "\<forall>x\<in>set rest. has_dim d x \<and> similarity x \<le> similarity c"
    using assms(2,4) rem by auto
  from best_scan_keep [OF this assms(3), of 1 0] r rem show ?thesis by simp
qed

lemma mmr_loop_lambda1:
  "\<forall>c\<in>set rem. has_dim d c \<Longrightarrow> \<forall>s\<in>set sel. has_dim d s \<Longrightarrow>
   sorted (map (\<lambda>c. - similarity c) rem) \<Longrightarrow>
   mmr_loop 1 k sel rem = Inr (sel @ take (k - length sel) rem)"
proof (induction rem arbitrary: sel)
  case Nil
  then show ?case by (simp add: mmr_loop.simps)
next
  case (Cons c rest)
  show ?case
  proof (cases "length sel < k")
    case False
    then show ?thesis by (simp add: mmr_loop.simps)
  next
    case True
    have step: "mmr_loop 1 k sel (c # rest) = mmr_loop 1 k (sel @ [c]) rest"
    proof (cases "sel = []")
      case True
      with \<open>length sel < k\<close> show ?thesis by (subst mmr_loop.simps) simp
    next
      case False
      have "best_scan 1 sel 0 None 0 (c # rest) = Inr 0"
        using best_scan_sorted [of "c # rest" d sel] Cons.prems by simp
      with False \<open>length sel < k\<close> show ?thesis
        by (subst mmr_loop.simps) (simp add: splice1_def)
    qed
    have "mmr_loop 1 k (sel @ [c]) rest = Inr ((sel @ [c]) @ take (k - length (sel @ [c])) rest)"
      using Cons.prems by (intro Cons.IH) auto
    moreover have "take (k - length sel) (c # rest) = c # take (k - length (sel @ [c])) rest"
      using True by (simp add: take_Cons')
    ultimately show ?thesis using step by simp
  qed
qed

lemma score_chunks_sound:
  "score_chunks avg t chunks = Inr cands \<Longrightarrow>
   \<forall>c\<in>set cands. has_dim (length avg) c \<and> similarity c \<le> 1"
proof (induction chunks arbitrary: cands)
  case Nil
  then show ?case by simp
next
  case (Cons c cs)
  then show ?case
    by (auto simp: cosineSimilarity_def Let_def has_dim_def with_similarity_def
        split: sum.splits option.splits if_splits)
qed

text \<open>
  Claim C5. With \<open>lambda = 1\<close>, for every \<open>k\<close>, every list of query embeddings and
  every chunk list whose chunks all carry embeddings, \<^verbatim>\<open>mmrSearch\<close> gives exactly
  what pure relevance ranking gives: the scored chunks sorted by boosted similarity,
  greatest first, cut to the first \<open>k\<close> (and the same exception where scoring throws).
\<close>

theorem mmrSearch_lambda_one:
  assumes "\<forall>c\<in>set chunks. embedding c \<noteq> None"
  shows "mmrSearch queryEmbeds chunks k 1 = relevance_ranking queryEmbeds chunks k"
proof (cases "chunks = []")
  case True
  then show ?thesis by (simp add: mmrSearch_def relevance_ranking_def)
next
  case False
  with assms have first: "embedding (hd chunks) \<noteq> None" by simp
  show ?thesis
  proof (cases "score_chunks (avgQueryEmbed queryEmbeds) (length chunks) chunks")
    case (Inl e)
    with False first show ?thesis by (simp add: mmrSearch_def relevance_ranking_def)
  next
    case (Inr cands)
    let ?sorted = "sort_key (\<lambda>c. - similarity c) cands"
    from score_chunks_sound [OF Inr]
    have "\<forall>c\<in>set ?sorted. has_dim (length (avgQueryEmbed queryEmbeds)) c" by simp
    then have "mmr_loop 1 k [] ?sorted = Inr ([] @ take (k - length ([]::RetrievedChunk list)) ?sorted)"
      by (intro mmr_loop_lambda1) auto
    with Inr False first show ?thesis by (auto simp: mmrSearch_def relevance_ranking_def)
  qed
qed

theorem mmrSearch_lambda_one_witness:
  "embedding (sample_pdf_chunk 0 1 ''x'' (Some [0, 1])) \<noteq> None
   \<and> embedding (sample_pdf_chunk 1 1 ''y'' (Some [1, 0])) \<noteq> None
   \<and> embedding (sample_pdf_chunk 2 1 ''z'' (Some [1, 0])) \<noteq> None
   \<and> mmrSearch [[1, 0]]
        [sample_pdf_chunk 0 1 ''x'' (Some [0, 1]), sample_pdf_chunk 1 1 ''y'' (Some [1, 0]),
         sample_pdf_chunk 2 1 ''z'' (Some [1, 0])] 2 1
      = Inr [with_similarity (sample_pdf_chunk 1 1 ''y'' (Some [1, 0])) 1,
             with_similarity (sample_pdf_chunk 2 1 ''z'' (Some [1, 0])) 1]"
proof -
  have "relevance_ranking [[1, 0]]
        [sample_pdf_chunk 0 1 ''x'' (Some [0, 1]), sample_pdf_chunk 1 1 ''y'' (Some [1, 0]),
         sample_pdf_chunk 2 1 ''z'' (Some [1, 0])] 2
      = Inr [with_similarity (sample_pdf_chunk 1 1 ''y'' (Some [1, 0])) 1,
             with_similarity (sample_pdf_chunk 2 1 ''z'' (Some [1, 0])) 1]"
    by (simp add: relevance_ranking_def sample_pdf_chunk_def avgQueryEmbed_def has_NaN_def
      cosineSimilarity_def dot_def calculatePriorityBoost_def hasDefinitionIndicators_def
      term_at_def is_upper_def Let_def with_similarity_def)
  with mmrSearch_lambda_one
      [of "[sample_pdf_chunk 0 1 ''x'' (Some [0, 1]), sample_pdf_chunk 1 1 ''y'' (Some [1, 0]),
         sample_pdf_chunk 2 1 ''z'' (Some [1, 0])]" "[[1, 0]]" 2]
  show ?thesis by (simp add: sample_pdf_chunk_def)
qed

lemma dot_simps [simp]:
  "dot [] b = 0" "dot a [] = 0" "dot (x # a) (y # b) = x * y + dot a b"
  by (simp_all add: dot_def)













section \<open>Properties of chunking\<close>

lemma is_space_blank [simp]: "is_space CHR '' ''"
  by (simp add: is_space_def)


lemma split_ws_not_Nil [simp]: "split_ws b cur s \<noteq> []"
  by (induction s arbitrary: b cur) auto



























section \<open>Properties of conversation memory\<close>

lemma sample_thread_take: "m \<le> n \<Longrightarrow> take m (sample_thread n) = sample_thread m"
  by (simp add: sample_thread_def take_map)

lemma sample_thread_sorted: "sort_key createdAt (sample_thread n) = sample_thread n"
proof -
  have "map createdAt (sample_thread n) = [0..<n]"
    by (simp add: sample_thread_def comp_def)
  then have "sorted (map createdAt (sample_thread n))" by simp
  then show ?thesis by (rule sort_key_id_if_sorted)
qed

lemma sample_thread_filter: "filter (\<lambda>m. threadId m = ''t'') (sample_thread n) = sample_thread n"
  by (simp add: sample_thread_def filter_map comp_def)

lemma sample_thread_tokens:
  "sum_list (map (\<lambda>m. case tokenCount m of None \<Rightarrow> 0 | Some n \<Rightarrow> n) (sample_thread n)) = n"
  by (simp add: sample_thread_def comp_def sum_list_triv)

lemma getThreadMessages_sample:
  "getThreadMessages \<lparr>db = Some \<lparr>pdfFiles = [], pdfIndexes = [], pdfMessages = sample_thread n\<rparr>,
      disk = Map.empty\<rparr> ''t'' 100 = sample_thread (min n 100)"
proof -
  have "take 100 (sample_thread n) = sample_thread (min n 100)"
    by (simp add: sample_thread_def take_map min_def)
  then show ?thesis
    by (simp add: getThreadMessages_def sample_thread_filter sample_thread_sorted)
qed

text \<open>
  What \<^verbatim>\<open>getThreadSummary\<close> returns from the messages it loaded: the transcript while
  their stored token counts sum to less than 2500, and otherwise a summary of all but the
  last ten of them followed by the last ten verbatim.
\<close>

lemma getThreadSummary_of_loaded:
  assumes "db s = Some d" and "getThreadMessages s tid 100 = messages" and "messages \<noteq> []"
  shows "getThreadSummary e s tid =
     (if sum_list (map (\<lambda>m. case tokenCount m of None \<Rightarrow> 0 | Some n \<Rightarrow> n) messages) < 2500
      then transcript messages
      else ''Previous conversation summary:\<newline>''
           @ summarizeThread e (take (length messages - 10) messages)
           @ ''\<newline>\<newline>Recent messages:\<newline>''
           @ transcript (drop (length messages - 10) messages))"
  using assms by (simp add: getThreadSummary_def Let_def)

text \<open>
  Claim C9 says that \<^verbatim>\<open>getThreadSummary\<close> works over the last up-to-100 messages of a
  thread. The query orders by creation time ascending and then limits to 100 rows, so
  what is loaded are the first 100. For a thread of 101 short messages the result is the
  transcript of messages 0 to 99: the newest message is missing from the memory, and the
  last 100 messages (1 to 100) are not what is returned.
\<close>

theorem getThreadSummary_keeps_oldest_hundred:
  "getThreadMessages \<lparr>db = Some \<lparr>pdfFiles = [], pdfIndexes = [], pdfMessages = sample_thread 101\<rparr>,
      disk = Map.empty\<rparr> ''t'' 100 = take 100 (sample_thread 101)
   \<and> take 100 (sample_thread 101) \<noteq> drop 1 (sample_thread 101)
   \<and> last (sample_thread 101) \<notin> set (take 100 (sample_thread 101))
   \<and> getThreadSummary e \<lparr>db = Some \<lparr>pdfFiles = [], pdfIndexes = [],
        pdfMessages = sample_thread 101\<rparr>, disk = Map.empty\<rparr> ''t''
      = transcript (take 100 (sample_thread 101))"
proof -
  let ?s = "\<lparr>db = Some \<lparr>pdfFiles = [], pdfIndexes = [], pdfMessages = sample_thread 101\<rparr>,
      disk = Map.empty\<rparr>"
  have msgs: "getThreadMessages ?s ''t'' 100 = sample_thread 100"
    using getThreadMessages_sample [of 101] by simp
  have t: "take 100 (sample_thread 101) = sample_thread 100"
    by (simp add: sample_thread_take)
  have ne: "sample_thread 100 \<noteq> []"
    by (simp add: sample_thread_def)
  have "hd (sample_thread 100) \<noteq> hd (drop 1 (sample_thread 101))"
    by (simp add: sample_thread_def hd_map hd_drop_conv_nth upt_conv_Cons)
  then have diff: "sample_thread 100 \<noteq> drop 1 (sample_thread 101)" by auto
  have "createdAt (last (sample_thread 101)) = 100"
    by (simp add: sample_thread_def last_map)
  moreover have "\<forall>m\<in>set (sample_thread 100). createdAt m < 100"
    by (auto simp: sample_thread_def)
  ultimately have notin: "last (sample_thread 101) \<notin> set (sample_thread 100)" by auto
  have "getThreadSummary e ?s ''t'' = transcript (sample_thread 100)"
    using ne by (simp add: getThreadSummary_def msgs sample_thread_tokens Let_def)
  with msgs t diff notin show ?thesis by simp
qed

section \<open>Properties of retrieval and of index building\<close>

text \<open>
  Claim C4. \<^verbatim>\<open>retrieveContext\<close>, called for a document with no index file, or with
  one whose chunk list is empty, returns the result
  \<^verbatim>\<open>{chunks: [], totalTokens: 0, error: "No index found or index is empty"}\<close>. It is a
  returned value: the function has no exceptional outcome at all.
\<close>

theorem retrieveContext_no_index:
  assumes "loadIndex s fid = None \<or> (\<exists>index. loadIndex s fid = Some index \<and> index_chunks index = [])"
  shows "retrieveContext e s fid query =
     Some \<lparr>result_chunks = [], totalTokens = 0,
           retrieval_error = Some ''No index found or index is empty''\<rparr>"
  using assms by (auto simp: retrieveContext_def Let_def)

theorem retrieveContext_no_index_witness:
  "loadIndex sample_system 8 = None
   \<and> retrieveContext sample_env sample_system 8 ''What is a set?'' =
     Some \<lparr>result_chunks = [], totalTokens = 0,
           retrieval_error = Some ''No index found or index is empty''\<rparr>"
  using retrieveContext_no_index [of sample_system 8 sample_env "''What is a set?''"]
  by (simp add: loadIndex_def sample_system_def)

lemma find_set_columns:
  "find (\<lambda>row. fileId row = new_fileId data)
     (map (\<lambda>row. if fileId row = new_fileId data then set_columns data row else row) rows)
   = map_option (set_columns data) (find (\<lambda>row. fileId row = new_fileId data) rows)"
  by (induction rows) (simp_all add: set_columns_def)

lemma find_snoc_new:
  "find P xs = None \<Longrightarrow> P x \<Longrightarrow> find P (xs @ [x]) = Some x"
  by (induction xs) (auto split: if_splits)

lemma createOrUpdateIndex_ok:
  assumes "db s \<noteq> None"
  shows "\<exists>s'. createOrUpdateIndex data s = Inr s' \<and> disk s' = disk s \<and> db s' \<noteq> None"
  using assms by (auto simp: createOrUpdateIndex_def split: option.splits)

lemma createOrUpdateIndex_disk:
  "createOrUpdateIndex data s = Inr s' \<Longrightarrow> disk s' = disk s \<and> db s' \<noteq> None"
  by (auto simp: createOrUpdateIndex_def split: option.splits)

lemma createOrUpdateIndex_row:
  assumes "createOrUpdateIndex data s = Inr s'"
    and "new_status data = Some st" and "new_errorMessage data = Some msg"
  shows "\<exists>row. getIndexByFileId s' (new_fileId data) = Some row \<and> status row = st
           \<and> errorMessage row = Some msg"
proof -
  from assms(1) obtain d where d: "db s = Some d"
    by (auto simp: createOrUpdateIndex_def split: option.splits)
  show ?thesis
  proof (cases "find (\<lambda>row. fileId row = new_fileId data) (pdfIndexes d)")
    case None
    with assms d show ?thesis
      by (auto simp: createOrUpdateIndex_def getIndexByFileId_def insert_row_def
          find_snoc_new)
  next
    case (Some existing)
    with assms d show ?thesis
      by (auto simp: createOrUpdateIndex_def getIndexByFileId_def find_set_columns
          set_columns_def)
  qed
qed

lemma retrieveContext_disk:
  "disk s' = disk s \<Longrightarrow> retrieveContext e s' fid query = retrieveContext e s fid query"
  by (simp add: retrieveContext_def loadIndex_def)

lemma report_progress_disk:
  "disk (report_progress fid p s) = disk s \<and> (db s \<noteq> None \<longrightarrow> db (report_progress fid p s) \<noteq> None)"
  using createOrUpdateIndex_disk
  by (auto simp: report_progress_def split: sum.splits)

lemma record_outcome_disk:
  "disk (record_outcome e fid result s) = disk s
   \<and> (db s \<noteq> None \<longrightarrow> db (record_outcome e fid result s) \<noteq> None)"
  using createOrUpdateIndex_disk
  by (auto simp: record_outcome_def Let_def split: sum.splits)

lemma land_write_disk:
  "disk (land_write e fid s w) = disk s \<and> (db s \<noteq> None \<longrightarrow> db (land_write e fid s w) \<noteq> None)"
  using report_progress_disk record_outcome_disk
  by (cases w) (simp_all add: land_write_def)

lemma land_writes_disk:
  "disk (land_writes e fid ws s) = disk s \<and> (db s \<noteq> None \<longrightarrow> db (land_writes e fid ws s) \<noteq> None)"
proof (induction ws arbitrary: s)
  case Nil
  then show ?case by (simp add: land_writes_def)
next
  case (Cons w ws)
  from Cons [of "land_write e fid s w"] land_write_disk [of e fid s w]
  show ?case by (simp add: land_writes_def)
qed

lemma land_writes_snoc:
  "land_writes e fid (ws @ [w]) s = land_write e fid (land_writes e fid ws s) w"
  by (simp add: land_writes_def)

lemma indexPdf_failure:
  assumes "build_failure e path = Some err"
  shows "\<exists>calls. indexPdf e fid path s = (index_failed err, s, calls)"
  using assms
  by (auto simp: indexPdf_def build_failure_def Let_def split: sum.splits)

lemma record_outcome_failed:
  assumes "db s \<noteq> None"
  shows "\<exists>row. getIndexByFileId (record_outcome e fid (index_failed err) s) fid = Some row
           \<and> status row = ERROR \<and> errorMessage row = Some (message err)"
proof -
  let ?data = "(for_file fid)\<lparr>new_status := Some ERROR, new_errorMessage := Some (message err)\<rparr>"
  from createOrUpdateIndex_ok [OF assms, of ?data] obtain s2
    where s2: "createOrUpdateIndex ?data s = Inr s2" by auto
  have "record_outcome e fid (index_failed err) s = s2"
    using s2 by (simp add: record_outcome_def index_failed_def)
  moreover from createOrUpdateIndex_row [OF s2, of ERROR "message err"]
  have "\<exists>row. getIndexByFileId s2 fid = Some row \<and> status row = ERROR
           \<and> errorMessage row = Some (message err)"
    by (simp add: for_file_def)
  ultimately show ?thesis by simp
qed

lemma triggerIndex_failed_build:
  assumes "triggerIndex e fid s = Inr (Started, s1, started)"
    and "getPdfFileById s fid = Some pdf"
    and "getLocalFilePath e (fileKey pdf) = Some path"
    and "build_failure e path = Some err"
  shows "disk s1 = disk s \<and> db s1 \<noteq> None
     \<and> (\<exists>calls. started = map Progress calls @ [Outcome (index_failed err)])"
proof -
  from assms(1-3) have "start_build e fid path s = Inr (Started, s1, started)"
    by (auto simp: triggerIndex_def split: option.splits if_splits sum.splits)
  then obtain s0 where s0: "createOrUpdateIndex
      ((for_file fid)\<lparr>new_status := Some INDEXING, new_progress := Some 0\<rparr>) s = Inr s0"
    and r: "run_index_task e fid path s0 = (s1, started)"
    by (auto simp: start_build_def Let_def split: sum.splits prod.splits)
  from createOrUpdateIndex_disk [OF s0] have d0: "disk s0 = disk s" and db0: "db s0 \<noteq> None"
    by auto
  from indexPdf_failure [OF assms(4), of fid s0] obtain calls
    where i: "indexPdf e fid path s0 = (index_failed err, s0, calls)" by auto
  from r i have "s1 = s0" and "started = map Progress calls @ [Outcome (index_failed err)]"
    by (simp_all add: run_index_task_def)
  with d0 db0 show ?thesis by auto
qed

text \<open>
  A build in which a step throws aborts: it writes no index file, whatever the order in
  which its writes to the status row land, so the index file from before is the one
  \<^verbatim>\<open>loadIndex\<close> gives and \<^verbatim>\<open>retrieveContext\<close> answers every query as it did before
  the build. The last write the task starts records \<^verbatim>\<open>ERROR\<close> with the message of the
  exception, and that is the status of the document when this write lands last.
\<close>

lemma failed_build_keeps_index_files:
  assumes "triggerIndex e fid s = Inr (Started, s1, started)"
    and "getPdfFileById s fid = Some pdf"
    and "getLocalFilePath e (fileKey pdf) = Some path"
    and "build_failure e path = Some err"
  shows "disk (land_writes e fid landed s1) = disk s
     \<and> loadIndex (land_writes e fid landed s1) fid = loadIndex s fid
     \<and> retrieveContext e (land_writes e fid landed s1) fid query = retrieveContext e s fid query"
proof -
  from triggerIndex_failed_build [OF assms] have "disk s1 = disk s" by simp
  with land_writes_disk [of e fid landed s1]
  have d: "disk (land_writes e fid landed s1) = disk s" by simp
  from d retrieveContext_disk [OF d] show ?thesis by (simp add: loadIndex_def)
qed

lemma failed_build_error_when_outcome_lands_last:
  assumes "triggerIndex e fid s = Inr (Started, s1, started)"
    and "getPdfFileById s fid = Some pdf"
    and "getLocalFilePath e (fileKey pdf) = Some path"
    and "build_failure e path = Some err"
    and "landed = before @ [Outcome (index_failed err)]"
  shows "\<exists>row. getIndexByFileId (land_writes e fid landed s1) fid = Some row
           \<and> status row = ERROR \<and> errorMessage row = Some (message err)"
proof -
  from triggerIndex_failed_build [OF assms(1-4)] have "db s1 \<noteq> None" by simp
  with land_writes_disk [of e fid before s1]
  have "db (land_writes e fid before s1) \<noteq> None" by simp
  from record_outcome_failed [OF this, of e fid err]
  show ?thesis by (simp add: assms(5) land_writes_snoc land_write_def)
qed

lemma trigger_limited:
  "triggerIndex limited_env 7 sample_system =
     Inr (Started, building_system,
          [Progress 10, Progress 30, Progress 50,
           Outcome (index_failed (Error ''429 Rate limit reached''))])"
proof -
  have cs: "chunkText [(1, ''Sets are collections'')] 800 100
      = [\<lparr>chunk_no = 0, page_start = 1, page_end = 1, content = ''Sets are collections'',
          tokens = 6, preview = ''Sets are collections...'', embedding = None\<rparr>]"
    by code_simp
  show ?thesis
    by (simp add: triggerIndex_def start_build_def run_index_task_def indexPdf_def
        createOrUpdateIndex_def getIndexByFileId_def getPdfFileById_def
        set_columns_def for_file_def index_failed_def sample_env_def sample_system_def
        building_system_def limited_env_def generateEmbeddings_def embed_batches.simps cs
        Let_def)
qed

lemma retrieve_limited:
  "retrieveContext limited_env building_system 7 ''What is a set?'' =
     Some \<lparr>result_chunks = [with_similarity (sample_pdf_chunk 0 1 ''x'' (Some [1])) 1],
           totalTokens = 1, retrieval_error = None\<rparr>"
  by (simp add: retrieveContext_def loadIndex_def building_system_def sample_index_def
        expandQuery_def embedQueries_def limited_env_def sample_env_def Let_def
        compressContext_def with_similarity_def sample_pdf_chunk_def sum_tokens_def
        mmrSearch_def avgQueryEmbed_def has_NaN_def
        cosineSimilarity_def dot_def calculatePriorityBoost_def hasDefinitionIndicators_def
        term_at_def is_upper_def mmr_loop.simps)

text \<open>
  The old index is served after a failed build: the provider refuses to embed the
  chunks of the new text, the build fails, and the question is still answered from the
  chunk indexed before.
\<close>

lemma failed_build_still_serves:
  "triggerIndex limited_env 7 sample_system =
     Inr (Started, building_system,
          [Progress 10, Progress 30, Progress 50,
           Outcome (index_failed (Error ''429 Rate limit reached''))])
   \<and> retrieveContext limited_env (land_writes limited_env 7 landed building_system) 7
        ''What is a set?'' =
       Some \<lparr>result_chunks = [with_similarity (sample_pdf_chunk 0 1 ''x'' (Some [1])) 1],
             totalTokens = 1, retrieval_error = None\<rparr>"
proof -
  have "disk (land_writes limited_env 7 landed building_system) = disk building_system"
    using land_writes_disk [of limited_env 7 landed building_system] by simp
  from retrieveContext_disk [OF this] trigger_limited retrieve_limited
  show ?thesis by simp
qed

text \<open>
  Claim C3 says that a build in which a step throws records the status \<^verbatim>\<open>ERROR\<close>
  with a message and leaves the index from before untouched and servable. The index is
  left untouched, but the status is not always \<^verbatim>\<open>ERROR\<close>. Without an API key the build
  of an uploaded file fails when it comes to the embeddings, right after the call
  \<^verbatim>\<open>onProgress?.(50)\<close>, which \<^verbatim>\<open>indexPdf\<close> does not await. The write of progress 50
  and the write of \<^verbatim>\<open>ERROR\<close> are then under way together; when the progress write
  lands second, the row of the document stays at \<^verbatim>\<open>INDEXING\<close> with progress 50, beside
  the error message. When the writes land in the order they were started, the status is
  \<^verbatim>\<open>ERROR\<close>.
\<close>

theorem failed_build_status_race:
  "triggerIndex keyless_env 7 sample_system =
     Inr (Started, building_system,
          [Progress 10, Progress 30, Progress 50,
           Outcome (index_failed (Error ''OpenAI API key not configured''))])
   \<and> landing_order
       [Progress 10, Progress 30, Progress 50,
        Outcome (index_failed (Error ''OpenAI API key not configured''))]
       [Progress 10, Progress 30,
        Outcome (index_failed (Error ''OpenAI API key not configured'')), Progress 50]
   \<and> getIndexByFileId
       (land_writes keyless_env 7
          [Progress 10, Progress 30,
           Outcome (index_failed (Error ''OpenAI API key not configured'')), Progress 50]
          building_system) 7
     = Some \<lparr>fileId = 7, status = INDEXING, chunkCount = Some 1,
             checksum = Some ''0cc175b9c0f1b6a831c399e269772661'',
             indexPath = Some ''.local-storage/indexes/7.json'',
             errorMessage = Some ''OpenAI API key not configured'', progress = Some 50,
             indexedAt = Some ''2024-12-31T00:00:00.000Z''\<rparr>
   \<and> map_option status
       (getIndexByFileId
          (land_writes keyless_env 7
             [Progress 10, Progress 30, Progress 50,
              Outcome (index_failed (Error ''OpenAI API key not configured''))]
             building_system) 7)
     = Some ERROR"
proof (intro conjI)
  show "triggerIndex keyless_env 7 sample_system =
     Inr (Started, building_system,
          [Progress 10, Progress 30, Progress 50,
           Outcome (index_failed (Error ''OpenAI API key not configured''))])"
    by (simp add: triggerIndex_def start_build_def run_index_task_def indexPdf_def
        createOrUpdateIndex_def getIndexByFileId_def getPdfFileById_def
        set_columns_def for_file_def index_failed_def sample_env_def sample_system_def
        building_system_def keyless_env_def generateEmbeddings_def Let_def)
next
  show "landing_order
       [Progress 10, Progress 30, Progress 50,
        Outcome (index_failed (Error ''OpenAI API key not configured''))]
       [Progress 10, Progress 30,
        Outcome (index_failed (Error ''OpenAI API key not configured'')), Progress 50]"
    by (simp add: landing_order_def)
next
  show "getIndexByFileId
       (land_writes keyless_env 7
          [Progress 10, Progress 30,
           Outcome (index_failed (Error ''OpenAI API key not configured'')), Progress 50]
          building_system) 7
     = Some \<lparr>fileId = 7, status = INDEXING, chunkCount = Some 1,
             checksum = Some ''0cc175b9c0f1b6a831c399e269772661'',
             indexPath = Some ''.local-storage/indexes/7.json'',
             errorMessage = Some ''OpenAI API key not configured'', progress = Some 50,
             indexedAt = Some ''2024-12-31T00:00:00.000Z''\<rparr>"
    by (simp add: land_writes_def land_write_def report_progress_def record_outcome_def
        createOrUpdateIndex_def getIndexByFileId_def set_columns_def for_file_def
        index_failed_def building_system_def Let_def)
next
  show "map_option status
       (getIndexByFileId
          (land_writes keyless_env 7
             [Progress 10, Progress 30, Progress 50,
              Outcome (index_failed (Error ''OpenAI API key not configured''))]
             building_system) 7)
     = Some ERROR"
    by (simp add: land_writes_def land_write_def report_progress_def record_outcome_def
        createOrUpdateIndex_def getIndexByFileId_def set_columns_def for_file_def
        index_failed_def building_system_def Let_def)
qed

end
